theory Spec2Isabelle
  imports Complex_Main
begin

section \<open>Data model (types.ts, constants.ts, the classes of App.tsx)\<close>

text \<open>
  JavaScript numbers are modelled as \<open>real\<close> where the source computes with fractions
  (positions, speeds, timestamps, random draws) and as \<open>int\<close> where it only counts
  (health, points, score, lives, level, counters). Drawing and sound have no effect on
  the simulation state and are left out. The display texts \<open>name\<close> and
  \<open>description\<close> of an achievement are never read by the game logic and are left out too.
\<close>

datatype GameState = START | PLAYING | PAUSED | GAME_OVER

datatype EnemyType = BASIC | FAST | HEAVY

datatype PowerUpType = TRIPLE_SHOT | SHIELD | EXTRA_LIFE

record Achievement =
  ach_id :: string
  unlocked :: bool
  icon :: string

definition INITIAL_ACHIEVEMENTS :: "Achievement list" where
  "INITIAL_ACHIEVEMENTS =
    [\<lparr>ach_id = ''first_blood'', unlocked = False, icon = ''Target''\<rparr>,
     \<lparr>ach_id = ''survivor'', unlocked = False, icon = ''Shield''\<rparr>,
     \<lparr>ach_id = ''ace_pilot'', unlocked = False, icon = ''Trophy''\<rparr>,
     \<lparr>ach_id = ''power_up_junkie'', unlocked = False, icon = ''Zap''\<rparr>,
     \<lparr>ach_id = ''unstoppable'', unlocked = False, icon = ''Flame''\<rparr>,
     \<lparr>ach_id = ''life_saver'', unlocked = False, icon = ''Heart''\<rparr>]"

definition PLAYER_SIZE :: real where "PLAYER_SIZE = 40"
definition PLAYER_SPEED :: real where "PLAYER_SPEED = 5"
definition PLAYER_INITIAL_LIVES :: int where "PLAYER_INITIAL_LIVES = 3"
definition INVINCIBILITY_DURATION :: real where "INVINCIBILITY_DURATION = 2000"
definition BULLET_SPEED :: real where "BULLET_SPEED = 7"
definition BULLET_SIZE :: real where "BULLET_SIZE = 4"
definition POWERUP_SIZE :: real where "POWERUP_SIZE = 30"
definition POWERUP_DURATION :: real where "POWERUP_DURATION = 8000"
definition POWERUP_SPAWN_CHANCE :: real where "POWERUP_SPAWN_CHANCE = 0.15"
definition ENEMIES_PER_LEVEL :: int where "ENEMIES_PER_LEVEL = 10"

record EnemyConfig =
  cfg_size :: real
  cfg_speed :: real
  cfg_health :: int
  cfg_points :: int
  cfg_color :: string
  cfg_glow :: string

fun ENEMY_CONFIGS :: "EnemyType \<Rightarrow> EnemyConfig" where
  "ENEMY_CONFIGS BASIC =
     \<lparr>cfg_size = 35, cfg_speed = 2, cfg_health = 1, cfg_points = 100,
      cfg_color = ''#3b82f6'', cfg_glow = ''#60a5fa''\<rparr>"
| "ENEMY_CONFIGS FAST =
     \<lparr>cfg_size = 25, cfg_speed = 4, cfg_health = 1, cfg_points = 150,
      cfg_color = ''#10b981'', cfg_glow = ''#34d399''\<rparr>"
| "ENEMY_CONFIGS HEAVY =
     \<lparr>cfg_size = 50, cfg_speed = 12 / 10, cfg_health = 3, cfg_points = 300,
      cfg_color = ''#ef4444'', cfg_glow = ''#f87171''\<rparr>"

record Bullet =
  b_x :: real
  b_y :: real
  b_vx :: real
  b_vy :: real
  b_radius :: real
  b_color :: string
  b_isEnemy :: bool

record Enemy =
  e_x :: real
  e_y :: real
  e_type :: EnemyType
  e_size :: real
  e_speed :: real
  e_health :: int
  e_points :: int
  e_color :: string
  e_glow :: string

record PowerUp =
  pu_x :: real
  pu_y :: real
  pu_type :: PowerUpType
  pu_size :: real
  pu_speed :: real

record Particle =
  pt_x :: real
  pt_y :: real
  pt_vx :: real
  pt_vy :: real
  pt_life :: real
  pt_color :: string

record ActivePowerUp =
  ap_type :: PowerUpType
  ap_endTime :: real

record Player =
  pl_x :: real
  pl_y :: real
  pl_invincibility :: real

text \<open>
  The world of one run: the fields of \<open>gameData.current\<close>, the React state the loop
  writes (\<open>gameState\<close>, \<open>score\<close>, \<open>lives\<close>, \<open>level\<close>, \<open>achievements\<close>,
  \<open>activePowerUps\<close>), and two counters of the calls made so far to \<open>Math.random\<close>
  and \<open>Date.now\<close>.

  The React setters are all called with updater functions; the model applies each
  updater to the field when it is called, which gives the state React reaches once it
  has run the queued updaters in call order. What the loop \<^emph>\<open>reads\<close> of \<open>level\<close> and
  \<open>activePowerUps\<close> is the value captured by the effect closure, fixed for the whole
  tick: the tick functions take it as the parameters \<open>lvl\<close> and \<open>aps\<close>.
\<close>

record World =
  player :: Player
  bullets :: "Bullet list"
  enemyBullets :: "Bullet list"
  enemies :: "Enemy list"
  powerUps :: "PowerUp list"
  particles :: "Particle list"
  keys :: "string \<Rightarrow> bool"
  lastShot :: real
  enemiesSpawnedInLevel :: int
  startTime :: real
  enemiesKilled :: int
  powerUpsPicked :: int
  gameState :: GameState
  score :: int
  lives :: int
  level :: int
  achievements :: "Achievement list"
  activePowerUps :: "ActivePowerUp list"
  randomCalls :: nat
  dateNowCalls :: nat

text \<open>
  What a tick takes from outside: the canvas dimensions (\<open>clientWidth\<close>,
  \<open>clientHeight\<close> and the buffer height \<open>canvas.height\<close>), the value the k-th call of
  \<open>Math.random\<close> returns and the value the k-th call of \<open>Date.now\<close> returns.
\<close>

record Env =
  clientWidth :: real
  clientHeight :: real
  canvasHeight :: real
  randomValues :: "nat \<Rightarrow> real"
  dateNowValues :: "nat \<Rightarrow> real"

definition Math_random :: "Env \<Rightarrow> World \<Rightarrow> real \<times> World" where
  "Math_random env w = (randomValues env (randomCalls w), w\<lparr>randomCalls := Suc (randomCalls w)\<rparr>)"

definition Date_now :: "Env \<Rightarrow> World \<Rightarrow> real \<times> World" where
  "Date_now env w = (dateNowValues env (dateNowCalls w), w\<lparr>dateNowCalls := Suc (dateNowCalls w)\<rparr>)"

subsection \<open>Constructors and per-entity updates\<close>

definition new_Bullet :: "real \<Rightarrow> real \<Rightarrow> real \<Rightarrow> real \<Rightarrow> string \<Rightarrow> bool \<Rightarrow> Bullet" where
  "new_Bullet x y vx vy color isEnemy =
     \<lparr>b_x = x, b_y = y, b_vx = vx, b_vy = vy, b_radius = BULLET_SIZE,
      b_color = color, b_isEnemy = isEnemy\<rparr>"

definition Bullet_update :: "Bullet \<Rightarrow> Bullet" where
  "Bullet_update b = b\<lparr>b_x := b_x b + b_vx b, b_y := b_y b + b_vy b\<rparr>"

definition new_Enemy :: "Env \<Rightarrow> real \<Rightarrow> EnemyType \<Rightarrow> World \<Rightarrow> Enemy \<times> World" where
  "new_Enemy env canvasWidth ty w =
     (let config = ENEMY_CONFIGS ty;
          (r, w') = Math_random env w
      in (\<lparr>e_x = r * (canvasWidth - cfg_size config), e_y = - cfg_size config, e_type = ty,
           e_size = cfg_size config, e_speed = cfg_speed config, e_health = cfg_health config,
           e_points = cfg_points config, e_color = cfg_color config, e_glow = cfg_glow config\<rparr>,
          w'))"

definition Enemy_update :: "Enemy \<Rightarrow> Enemy" where
  "Enemy_update e = e\<lparr>e_y := e_y e + e_speed e\<rparr>"

definition new_PowerUp :: "Env \<Rightarrow> real \<Rightarrow> World \<Rightarrow> PowerUp \<times> World" where
  "new_PowerUp env canvasWidth w =
     (let (rand, w1) = Math_random env w;
          ty = (if rand < 0.4 then TRIPLE_SHOT else if rand < 0.8 then SHIELD else EXTRA_LIFE);
          (r, w2) = Math_random env w1
      in (\<lparr>pu_x = r * (canvasWidth - POWERUP_SIZE), pu_y = - POWERUP_SIZE, pu_type = ty,
           pu_size = POWERUP_SIZE, pu_speed = 1.5\<rparr>, w2))"

definition PowerUp_update :: "PowerUp \<Rightarrow> PowerUp" where
  "PowerUp_update p = p\<lparr>pu_y := pu_y p + pu_speed p\<rparr>"

definition new_Particle :: "Env \<Rightarrow> real \<Rightarrow> real \<Rightarrow> string \<Rightarrow> World \<Rightarrow> Particle \<times> World" where
  "new_Particle env x y color w =
     (let (r1, w1) = Math_random env w;
          angle = r1 * pi * 2;
          (r2, w2) = Math_random env w1;
          speed = r2 * 3 + 1
      in (\<lparr>pt_x = x, pt_y = y, pt_vx = cos angle * speed, pt_vy = sin angle * speed,
           pt_life = 1, pt_color = color\<rparr>, w2))"

definition Particle_update :: "Particle \<Rightarrow> Particle" where
  "Particle_update p = p\<lparr>pt_x := pt_x p + pt_vx p, pt_y := pt_y p + pt_vy p,
                         pt_life := pt_life p - 0.02\<rparr>"

subsection \<open>Achievements\<close>

definition unlockAchievement :: "string \<Rightarrow> World \<Rightarrow> World" where
  "unlockAchievement i w =
     (let prev = achievements w in
      case find (\<lambda>a. ach_id a = i) prev of
        Some ach \<Rightarrow>
          if \<not> unlocked ach
          then w\<lparr>achievements := map (\<lambda>a. if ach_id a = i then a\<lparr>unlocked := True\<rparr> else a) prev\<rparr>
          else w
      | None \<Rightarrow> w)"

section \<open>The game loop (App.tsx, \<open>loop\<close>)\<close>

subsection \<open>Input handling and clamp\<close>

definition handleInput :: "Env \<Rightarrow> World \<Rightarrow> World" where
  "handleInput env w =
     (let ks = keys w; p0 = player w;
          p1 = (if ks ''ArrowLeft'' \<or> ks ''a'' then p0\<lparr>pl_x := pl_x p0 - PLAYER_SPEED\<rparr> else p0);
          p2 = (if ks ''ArrowRight'' \<or> ks ''d'' then p1\<lparr>pl_x := pl_x p1 + PLAYER_SPEED\<rparr> else p1);
          p3 = (if ks ''ArrowUp'' \<or> ks ''w'' then p2\<lparr>pl_y := pl_y p2 - PLAYER_SPEED\<rparr> else p2);
          p4 = (if ks ''ArrowDown'' \<or> ks ''s'' then p3\<lparr>pl_y := pl_y p3 + PLAYER_SPEED\<rparr> else p3);
          p5 = p4\<lparr>pl_x := max 0 (min (clientWidth env - PLAYER_SIZE) (pl_x p4))\<rparr>;
          p6 = p5\<lparr>pl_y := max 0 (min (clientHeight env - PLAYER_SIZE) (pl_y p5))\<rparr>
      in w\<lparr>player := p6\<rparr>)"

subsection \<open>Automatic shooting\<close>

definition hasTriple :: "real \<Rightarrow> ActivePowerUp list \<Rightarrow> bool" where
  "hasTriple now aps = list_ex (\<lambda>p. ap_type p = TRIPLE_SHOT \<and> ap_endTime p > now) aps"

definition hasShield :: "real \<Rightarrow> ActivePowerUp list \<Rightarrow> bool" where
  "hasShield now aps = list_ex (\<lambda>p. ap_type p = SHIELD \<and> ap_endTime p > now) aps"

definition autoShoot :: "real \<Rightarrow> ActivePowerUp list \<Rightarrow> World \<Rightarrow> World" where
  "autoShoot now aps w =
     (let p = player w in
      if now - lastShot w > 150 then
        (if hasTriple now aps then
           w\<lparr>bullets := bullets w @
               [new_Bullet (pl_x p + PLAYER_SIZE / 2) (pl_y p) (-2) (- BULLET_SPEED) ''#f59e0b'' False,
                new_Bullet (pl_x p + PLAYER_SIZE / 2) (pl_y p) 0 (- BULLET_SPEED) ''#f59e0b'' False,
                new_Bullet (pl_x p + PLAYER_SIZE / 2) (pl_y p) 2 (- BULLET_SPEED) ''#f59e0b'' False],
             lastShot := now\<rparr>
         else
           w\<lparr>bullets := bullets w @
               [new_Bullet (pl_x p + PLAYER_SIZE / 2) (pl_y p) 0 (- BULLET_SPEED) ''#fff'' False],
             lastShot := now\<rparr>)
      else w)"

subsection \<open>\<open>Array.prototype.filter\<close> with a callback that mutates\<close>

text \<open>
  Every collection is rebuilt once per tick by \<open>filter\<close>, whose callback first updates
  the element in place, may change the world, and returns whether the element is kept.
  \<open>filterWith\<close> runs such a callback over the list from left to right, threading the
  world; the kept elements are the updated ones.
\<close>

fun filterWith :: "('a \<Rightarrow> 's \<Rightarrow> ('a \<times> bool) \<times> 's) \<Rightarrow> 'a list \<Rightarrow> 's \<Rightarrow> 'a list \<times> 's" where
  "filterWith cb [] s = ([], s)"
| "filterWith cb (x # xs) s =
     (let ((x', keep), s1) = cb x s;
          (rest, s2) = filterWith cb xs s1
      in (if keep then x' # rest else rest, s2))"

subsection \<open>Player bullets\<close>

definition bulletInField :: "Env \<Rightarrow> Bullet \<Rightarrow> bool" where
  "bulletInField env b \<longleftrightarrow> b_y b > 0 \<and> b_x b > 0 \<and> b_x b < clientWidth env"

definition bulletCallback :: "Env \<Rightarrow> Bullet \<Rightarrow> World \<Rightarrow> (Bullet \<times> bool) \<times> World" where
  "bulletCallback env b w = (let b' = Bullet_update b in ((b', bulletInField env b'), w))"

definition updateBullets :: "Env \<Rightarrow> World \<Rightarrow> World" where
  "updateBullets env w =
     (let (bs, w') = filterWith (bulletCallback env) (bullets w) w in w'\<lparr>bullets := bs\<rparr>)"

subsection \<open>Enemy bullets against the player\<close>

definition loseLife :: "World \<Rightarrow> World" where
  "loseLife w =
     (if lives w \<le> 1 then w\<lparr>gameState := GAME_OVER, lives := 0\<rparr>
      else w\<lparr>lives := lives w - 1\<rparr>)"

definition consumeShield :: "World \<Rightarrow> World" where
  "consumeShield w = w\<lparr>activePowerUps := filter (\<lambda>p. ap_type p \<noteq> SHIELD) (activePowerUps w)\<rparr>"

definition bulletHitsPlayer :: "Bullet \<Rightarrow> Player \<Rightarrow> bool" where
  "bulletHitsPlayer b p \<longleftrightarrow>
     b_x b > pl_x p \<and> b_x b < pl_x p + PLAYER_SIZE \<and>
     b_y b > pl_y p \<and> b_y b < pl_y p + PLAYER_SIZE"

text \<open>The callback of the enemy-bullet filter after \<open>b.update()\<close>.\<close>

definition enemyBulletResolve ::
  "Env \<Rightarrow> real \<Rightarrow> ActivePowerUp list \<Rightarrow> Bullet \<Rightarrow> World \<Rightarrow> (Bullet \<times> bool) \<times> World" where
  "enemyBulletResolve env now aps b w =
     (let p = player w;
          isInvincible = pl_invincibility p > now
      in if \<not> isInvincible \<and> bulletHitsPlayer b p then
           (if hasShield now aps then ((b, False), consumeShield w)
            else ((b, False),
                  (loseLife w)\<lparr>player := p\<lparr>pl_invincibility := now + INVINCIBILITY_DURATION\<rparr>\<rparr>))
         else ((b, b_y b < clientHeight env \<and> b_x b > 0 \<and> b_x b < clientWidth env), w))"

definition enemyBulletCallback ::
  "Env \<Rightarrow> real \<Rightarrow> ActivePowerUp list \<Rightarrow> Bullet \<Rightarrow> World \<Rightarrow> (Bullet \<times> bool) \<times> World" where
  "enemyBulletCallback env now aps b w = enemyBulletResolve env now aps (Bullet_update b) w"

definition updateEnemyBullets :: "Env \<Rightarrow> real \<Rightarrow> ActivePowerUp list \<Rightarrow> World \<Rightarrow> World" where
  "updateEnemyBullets env now aps w =
     (let (bs, w') = filterWith (enemyBulletCallback env now aps) (enemyBullets w) w
      in w'\<lparr>enemyBullets := bs\<rparr>)"

subsection \<open>Spawning\<close>

text \<open>The variant chosen by \<open>spawnEnemy\<close> from its draw \<open>rand\<close>: two assignments in sequence.\<close>

definition spawnEnemy_type :: "int \<Rightarrow> real \<Rightarrow> EnemyType" where
  "spawnEnemy_type lvl rand =
     (let ty0 = BASIC;
          ty1 = (if lvl \<ge> 2 \<and> rand > 0.7 then FAST else ty0);
          ty2 = (if lvl \<ge> 3 \<and> rand > 0.9 then HEAVY else ty1)
      in ty2)"

definition spawnEnemy :: "Env \<Rightarrow> int \<Rightarrow> World \<Rightarrow> World" where
  "spawnEnemy env lvl w =
     (let logicalWidth = clientWidth env;
          (rand, w1) = Math_random env w;
          ty = spawnEnemy_type lvl rand;
          (e, w2) = new_Enemy env logicalWidth ty w1
      in w2\<lparr>enemies := enemies w2 @ [e],
            enemiesSpawnedInLevel := enemiesSpawnedInLevel w2 + 1\<rparr>)"

definition spawnPowerUp :: "Env \<Rightarrow> int \<Rightarrow> World \<Rightarrow> World" where
  "spawnPowerUp env lvl w =
     (let logicalWidth = clientWidth env;
          chance = (if lvl \<ge> 15
                    then max 0.02 (POWERUP_SPAWN_CHANCE - (real_of_int lvl - 15) * 0.01)
                    else POWERUP_SPAWN_CHANCE);
          (r, w1) = Math_random env w
      in if r < chance
         then (let (p, w2) = new_PowerUp env logicalWidth w1 in w2\<lparr>powerUps := powerUps w2 @ [p]\<rparr>)
         else w1)"

definition maybeSpawnEnemy :: "Env \<Rightarrow> int \<Rightarrow> World \<Rightarrow> World" where
  "maybeSpawnEnemy env lvl w =
     (let (r, w1) = Math_random env w
      in if r < 0.02 * (1 + real_of_int lvl * 0.25) \<and>
            enemiesSpawnedInLevel w1 < ENEMIES_PER_LEVEL * lvl
         then spawnEnemy env lvl w1 else w1)"

subsection \<open>Enemies: firing, player bullets, contact\<close>

definition fireChance :: "int \<Rightarrow> real" where
  "fireChance lvl = min 0.05 (0.005 + (real_of_int lvl - 10) * 0.002)"

definition enemyFire :: "Env \<Rightarrow> int \<Rightarrow> Enemy \<Rightarrow> World \<Rightarrow> World" where
  "enemyFire env lvl e w =
     (if lvl \<ge> 10 then
        (let (r, w1) = Math_random env w
         in if r < fireChance lvl
            then w1\<lparr>enemyBullets := enemyBullets w1 @
                      [new_Bullet (e_x e + e_size e / 2) (e_y e + e_size e) 0 4 ''#ef4444'' True]\<rparr>
            else w1)
      else w)"

definition pushParticle :: "Env \<Rightarrow> Enemy \<Rightarrow> World \<Rightarrow> World" where
  "pushParticle env e w =
     (let (p, w') = new_Particle env (e_x e + e_size e / 2) (e_y e + e_size e / 2) (e_color e) w
      in w'\<lparr>particles := particles w' @ [p]\<rparr>)"

text \<open>What the forEach callback does once \<open>e.health <= 0\<close> (after \<open>hit = true\<close>).\<close>

definition killEffects :: "Env \<Rightarrow> int \<Rightarrow> Enemy \<Rightarrow> World \<Rightarrow> World" where
  "killEffects env lvl e w =
     (let w1 = w\<lparr>score := score w + e_points e\<rparr>;
          w2 = w1\<lparr>enemiesKilled := enemiesKilled w1 + 1\<rparr>;
          w3 = fold (\<lambda>i. pushParticle env e) [0..<10] w2;
          w4 = (if enemiesKilled w3 = 1 then unlockAchievement ''first_blood'' w3 else w3);
          w5 = (if enemiesKilled w4 = 50 then unlockAchievement ''ace_pilot'' w4 else w4)
      in spawnPowerUp env lvl w5)"

definition bulletHitsEnemy :: "Bullet \<Rightarrow> Enemy \<Rightarrow> bool" where
  "bulletHitsEnemy b e \<longleftrightarrow>
     b_x b > e_x e \<and> b_x b < e_x e + e_size e \<and>
     b_y b > e_y e \<and> b_y b < e_y e + e_size e"

text \<open>
  \<open>gameData.current.bullets.forEach((b, bIdx) => ...)\<close>: \<open>forEach\<close> reads the length
  \<open>len\<close> once, visits the indices \<open>0 .. len - 1\<close> in order and skips an index that the
  array no longer has; the callback removes the bullet it hits with
  \<open>splice(bIdx, 1)\<close> from the array being traversed.
\<close>

function forEachBullet ::
  "Env \<Rightarrow> int \<Rightarrow> nat \<Rightarrow> nat \<Rightarrow> Enemy \<times> bool \<times> World \<Rightarrow> Enemy \<times> bool \<times> World" where
  "forEachBullet env lvl bIdx len (e, hit, w) =
     (if bIdx < len then
        (if bIdx < length (bullets w) then
           (let b = bullets w ! bIdx in
            if bulletHitsEnemy b e then
              (let e1 = e\<lparr>e_health := e_health e - 1\<rparr>;
                   w1 = w\<lparr>bullets := take bIdx (bullets w) @ drop (Suc bIdx) (bullets w)\<rparr>
               in if e_health e1 \<le> 0
                  then forEachBullet env lvl (Suc bIdx) len (e1, True, killEffects env lvl e1 w1)
                  else forEachBullet env lvl (Suc bIdx) len (e1, hit, w1))
            else forEachBullet env lvl (Suc bIdx) len (e, hit, w))
         else forEachBullet env lvl (Suc bIdx) len (e, hit, w))
      else (e, hit, w))"
  by pat_completeness auto
termination
  by (relation "measure (\<lambda>(env, lvl, bIdx, len, s). len - bIdx)") auto

definition enemyHitsPlayer :: "Enemy \<Rightarrow> Player \<Rightarrow> bool" where
  "enemyHitsPlayer e p \<longleftrightarrow>
     pl_x p < e_x e + e_size e \<and> pl_x p + PLAYER_SIZE > e_x e \<and>
     pl_y p < e_y e + e_size e \<and> pl_y p + PLAYER_SIZE > e_y e"

definition enemyVsPlayer ::
  "real \<Rightarrow> ActivePowerUp list \<Rightarrow> Enemy \<Rightarrow> bool \<times> World \<Rightarrow> bool \<times> World" where
  "enemyVsPlayer now aps e hw =
     (let (hit, w) = hw;
          p = player w;
          isInvincible = pl_invincibility p > now
      in if \<not> isInvincible \<and> enemyHitsPlayer e p then
           (if hasShield now aps then (True, consumeShield w)
            else (True,
                  (loseLife w)\<lparr>player := p\<lparr>pl_invincibility := now + INVINCIBILITY_DURATION\<rparr>\<rparr>))
         else (hit, w))"

text \<open>The callback of the enemy filter after \<open>e.update()\<close>.\<close>

definition enemyResolve ::
  "Env \<Rightarrow> real \<Rightarrow> int \<Rightarrow> ActivePowerUp list \<Rightarrow> Enemy \<Rightarrow> World \<Rightarrow> (Enemy \<times> bool) \<times> World" where
  "enemyResolve env now lvl aps e w =
     (let w1 = enemyFire env lvl e w;
          (e2, hit2, w2) = forEachBullet env lvl 0 (length (bullets w1)) (e, False, w1);
          (hit3, w3) = enemyVsPlayer now aps e2 (hit2, w2)
      in if e_y e2 > canvasHeight env then ((e2, False), w3) else ((e2, \<not> hit3), w3))"

definition enemyCallback ::
  "Env \<Rightarrow> real \<Rightarrow> int \<Rightarrow> ActivePowerUp list \<Rightarrow> Enemy \<Rightarrow> World \<Rightarrow> (Enemy \<times> bool) \<times> World" where
  "enemyCallback env now lvl aps e w = enemyResolve env now lvl aps (Enemy_update e) w"

definition updateEnemies :: "Env \<Rightarrow> real \<Rightarrow> int \<Rightarrow> ActivePowerUp list \<Rightarrow> World \<Rightarrow> World" where
  "updateEnemies env now lvl aps w =
     (let (es, w') = filterWith (enemyCallback env now lvl aps) (enemies w) w
      in w'\<lparr>enemies := es\<rparr>)"

subsection \<open>Power-ups\<close>

definition playerTouchesPowerUp :: "Player \<Rightarrow> PowerUp \<Rightarrow> bool" where
  "playerTouchesPowerUp pl p \<longleftrightarrow>
     pl_x pl < pu_x p + pu_size p \<and> pl_x pl + PLAYER_SIZE > pu_x p \<and>
     pl_y pl < pu_y p + pu_size p \<and> pl_y pl + PLAYER_SIZE > pu_y p"

text \<open>
  The updater passed to \<open>setActivePowerUps\<close> on a pickup; \<open>t\<close> is what its call of
  \<open>Date.now()\<close> returns.
\<close>

definition activate :: "PowerUpType \<Rightarrow> real \<Rightarrow> ActivePowerUp list \<Rightarrow> ActivePowerUp list" where
  "activate ty t prev =
     filter (\<lambda>pu. ap_type pu \<noteq> ty) prev @ [\<lparr>ap_type = ty, ap_endTime = t + POWERUP_DURATION\<rparr>]"

definition pickUp :: "Env \<Rightarrow> PowerUp \<Rightarrow> World \<Rightarrow> World" where
  "pickUp env p w =
     (let w1 = (if pu_type p = EXTRA_LIFE
                then unlockAchievement ''life_saver'' (w\<lparr>lives := lives w + 1\<rparr>)
                else (let (t, w') = Date_now env w
                      in w'\<lparr>activePowerUps := activate (pu_type p) t (activePowerUps w')\<rparr>));
          w2 = w1\<lparr>powerUpsPicked := powerUpsPicked w1 + 1\<rparr>
      in if powerUpsPicked w2 = 10 then unlockAchievement ''power_up_junkie'' w2 else w2)"

text \<open>The callback of the power-up filter after \<open>p.update()\<close>.\<close>

definition powerUpResolve :: "Env \<Rightarrow> PowerUp \<Rightarrow> World \<Rightarrow> (PowerUp \<times> bool) \<times> World" where
  "powerUpResolve env p w =
     (if playerTouchesPowerUp (player w) p then ((p, False), pickUp env p w)
      else ((p, pu_y p < canvasHeight env), w))"

definition powerUpCallback :: "Env \<Rightarrow> PowerUp \<Rightarrow> World \<Rightarrow> (PowerUp \<times> bool) \<times> World" where
  "powerUpCallback env p w = powerUpResolve env (PowerUp_update p) w"

definition updatePowerUps :: "Env \<Rightarrow> World \<Rightarrow> World" where
  "updatePowerUps env w =
     (let (ps, w') = filterWith (powerUpCallback env) (powerUps w) w in w'\<lparr>powerUps := ps\<rparr>)"

subsection \<open>Particles\<close>

definition particleCallback :: "Particle \<Rightarrow> World \<Rightarrow> (Particle \<times> bool) \<times> World" where
  "particleCallback p w = (let p' = Particle_update p in ((p', pt_life p' > 0), w))"

definition updateParticles :: "World \<Rightarrow> World" where
  "updateParticles w =
     (let (ps, w') = filterWith particleCallback (particles w) w in w'\<lparr>particles := ps\<rparr>)"

subsection \<open>Level progression and the survivor check\<close>

definition levelComplete :: "int \<Rightarrow> World \<Rightarrow> bool" where
  "levelComplete lvl w \<longleftrightarrow>
     enemiesSpawnedInLevel w \<ge> ENEMIES_PER_LEVEL * lvl \<and> length (enemies w) = 0"

definition checkLevelUp :: "int \<Rightarrow> World \<Rightarrow> World" where
  "checkLevelUp lvl w =
     (if levelComplete lvl w then
        (let next = level w + 1;
             w1 = (if next = 15 then w\<lparr>lives := lives w + 1\<rparr> else w);
             w2 = (if next = 5 then unlockAchievement ''unstoppable'' w1 else w1);
             w3 = w2\<lparr>level := next\<rparr>
         in w3\<lparr>enemiesSpawnedInLevel := 0\<rparr>)
      else w)"

definition checkSurvivor :: "real \<Rightarrow> World \<Rightarrow> World" where
  "checkSurvivor now w =
     (if now - startTime w > 60000 then unlockAchievement ''survivor'' w else w)"

subsection \<open>One tick\<close>

text \<open>
  The body of \<open>loop\<close> up to the level-up check; it returns the tick's \<open>now\<close> with
  the world.
\<close>

definition beforeLevelCheck :: "Env \<Rightarrow> World \<Rightarrow> real \<times> World" where
  "beforeLevelCheck env w =
     (let lvl = level w; aps = activePowerUps w;
          w1 = handleInput env w;
          (now, w2) = Date_now env w1;
          w3 = autoShoot now aps w2;
          w4 = updateBullets env w3;
          w5 = updateEnemyBullets env now aps w4;
          w6 = maybeSpawnEnemy env lvl w5;
          w7 = updateEnemies env now lvl aps w6;
          w8 = updatePowerUps env w7
      in (now, updateParticles w8))"

definition tick :: "Env \<Rightarrow> World \<Rightarrow> World" where
  "tick env w =
     (let (now, w9) = beforeLevelCheck env w;
          w10 = checkLevelUp (level w) w9
      in checkSurvivor now w10)"

section \<open>What the properties observe\<close>

text \<open>
  An achievement counts as unlocked when the first entry with its id is, which is what
  \<open>unlockAchievement\<close> itself tests.
\<close>

definition achievementUnlocked :: "string \<Rightarrow> World \<Rightarrow> bool" where
  "achievementUnlocked i w \<longleftrightarrow>
     (case find (\<lambda>a. ach_id a = i) (achievements w) of Some a \<Rightarrow> unlocked a | None \<Rightarrow> False)"

definition achievementIds :: "World \<Rightarrow> string list" where
  "achievementIds w = map ach_id (achievements w)"

text \<open>The remaining lives of the particles, in order.\<close>

definition particleLives :: "World \<Rightarrow> real list" where
  "particleLives w = map pt_life (particles w)"

text \<open>
  The calls of \<open>Math.random\<close> made so far when a run of the enemy filter visits each
  enemy in turn: the number of the draw that decides whether that enemy fires.
\<close>

fun visitDraws :: "Env \<Rightarrow> real \<Rightarrow> int \<Rightarrow> ActivePowerUp list \<Rightarrow> Enemy list \<Rightarrow> World \<Rightarrow> nat list" where
  "visitDraws env now lvl aps [] w = []"
| "visitDraws env now lvl aps (e # es) w =
     randomCalls w # visitDraws env now lvl aps es (snd (enemyCallback env now lvl aps e w))"

text \<open>The bullet an enemy fires in the tick in which it moves from where \<open>e\<close> is.\<close>

definition shotOf :: "Enemy \<Rightarrow> Bullet" where
  "shotOf e = new_Bullet (e_x e + e_size e / 2) (e_y e + e_speed e + e_size e) 0 4 ''#ef4444'' True"

text \<open>
  Every ActivePowerUp entry was made by a pickup: its expiry is what one of the calls of
  \<open>Date.now\<close> made so far returned, plus \<open>POWERUP_DURATION\<close>.
\<close>

definition entriesFromClock :: "Env \<Rightarrow> World \<Rightarrow> bool" where
  "entriesFromClock env w \<longleftrightarrow>
     (\<forall>a \<in> set (activePowerUps w).
        \<exists>k < dateNowCalls w. ap_endTime a = dateNowValues env k + POWERUP_DURATION)"

section \<open>The selection of the enemy variant as the specification words it\<close>

text \<open>
  Three independent draws: the base variant is always eligible, the fast variant is taken
  when the second draw is above its threshold once the level is at least 2, the heavy
  variant when the third draw is above the higher threshold once the level is at least 3,
  a higher tier overriding a lower one.
\<close>

definition spawnEnemy_type_independent :: "int \<Rightarrow> real \<Rightarrow> real \<Rightarrow> real \<Rightarrow> EnemyType" where
  "spawnEnemy_type_independent lvl r1 r2 r3 =
     (if lvl \<ge> 3 \<and> r3 > 0.9 then HEAVY
      else if lvl \<ge> 2 \<and> r2 > 0.7 then FAST
      else BASIC)"

section \<open>The tick as a composition of stages\<close>

text \<open>The motion updates of the five collections, each on its own.\<close>

definition moveBullets :: "Env \<Rightarrow> World \<Rightarrow> World" where
  "moveBullets env w = w\<lparr>bullets := filter (bulletInField env) (map Bullet_update (bullets w))\<rparr>"

definition moveEnemyBullets :: "World \<Rightarrow> World" where
  "moveEnemyBullets w = w\<lparr>enemyBullets := map Bullet_update (enemyBullets w)\<rparr>"

definition moveEnemies :: "World \<Rightarrow> World" where
  "moveEnemies w = w\<lparr>enemies := map Enemy_update (enemies w)\<rparr>"

definition movePowerUps :: "World \<Rightarrow> World" where
  "movePowerUps w = w\<lparr>powerUps := map PowerUp_update (powerUps w)\<rparr>"

definition moveParticles :: "World \<Rightarrow> World" where
  "moveParticles w =
     w\<lparr>particles := filter (\<lambda>p. pt_life p > 0) (map Particle_update (particles w))\<rparr>"

text \<open>
  The collision resolution of the three collections that collide with the player, each
  run over entities that have already been moved: enemy bullets against the player;
  per enemy its shot, the player bullets against it and its contact with the player;
  the player against the power-ups.
\<close>

definition resolveEnemyBullets :: "Env \<Rightarrow> real \<Rightarrow> ActivePowerUp list \<Rightarrow> World \<Rightarrow> World" where
  "resolveEnemyBullets env now aps w =
     (let (bs, w') = filterWith (enemyBulletResolve env now aps) (enemyBullets w) w
      in w'\<lparr>enemyBullets := bs\<rparr>)"

definition resolveEnemies :: "Env \<Rightarrow> real \<Rightarrow> int \<Rightarrow> ActivePowerUp list \<Rightarrow> World \<Rightarrow> World" where
  "resolveEnemies env now lvl aps w =
     (let (es, w') = filterWith (enemyResolve env now lvl aps) (enemies w) w
      in w'\<lparr>enemies := es\<rparr>)"

definition resolvePowerUps :: "Env \<Rightarrow> World \<Rightarrow> World" where
  "resolvePowerUps env w =
     (let (ps, w') = filterWith (powerUpResolve env) (powerUps w) w in w'\<lparr>powerUps := ps\<rparr>)"

text \<open>
  The tick as the specification words it: every motion update, then the collision
  resolution in its fixed order, then the level check.
\<close>

definition tick_staged :: "Env \<Rightarrow> World \<Rightarrow> World" where
  "tick_staged env w =
     (let lvl = level w; aps = activePowerUps w;
          w1 = handleInput env w;
          (now, w2) = Date_now env w1;
          w3 = autoShoot now aps w2;
          w4 = maybeSpawnEnemy env lvl w3;
          w5 = moveParticles (movePowerUps (moveEnemies (moveEnemyBullets (moveBullets env w4))));
          w6 = resolvePowerUps env (resolveEnemies env now lvl aps (resolveEnemyBullets env now aps w5));
          w7 = checkLevelUp lvl w6
      in checkSurvivor now w7)"

text \<open>
  The tick pass by pass: within each pass the motion of its entities comes first, then
  its collision resolution; the level check comes last.
\<close>

definition tick_by_pass :: "Env \<Rightarrow> World \<Rightarrow> World" where
  "tick_by_pass env w =
     (let lvl = level w; aps = activePowerUps w;
          w1 = handleInput env w;
          (now, w2) = Date_now env w1;
          w3 = autoShoot now aps w2;
          w4 = moveBullets env w3;
          w5 = resolveEnemyBullets env now aps (moveEnemyBullets w4);
          w6 = maybeSpawnEnemy env lvl w5;
          w7 = resolveEnemies env now lvl aps (moveEnemies w6);
          w8 = resolvePowerUps env (movePowerUps w7);
          w9 = moveParticles w8;
          w10 = checkLevelUp lvl w9
      in checkSurvivor now w10)"

section \<open>Initial state and sample inputs\<close>

text \<open>
  The initial values of the component: the \<open>useState\<close> defaults and the initial
  \<open>gameData\<close> ref.
\<close>

definition initialWorld :: World where
  "initialWorld =
     \<lparr>player = \<lparr>pl_x = 0, pl_y = 0, pl_invincibility = 0\<rparr>,
      bullets = [], enemyBullets = [], enemies = [], powerUps = [], particles = [],
      keys = (\<lambda>k. False), lastShot = 0, enemiesSpawnedInLevel = 0, startTime = 0,
      enemiesKilled = 0, powerUpsPicked = 0,
      gameState = START, score = 0, lives = PLAYER_INITIAL_LIVES, level = 1,
      achievements = INITIAL_ACHIEVEMENTS, activePowerUps = [],
      randomCalls = 0, dateNowCalls = 0\<rparr>"

text \<open>An 800 x 600 field whose random source is the given function and whose clock stands at \<open>t\<close>.\<close>

definition fieldEnv :: "(nat \<Rightarrow> real) \<Rightarrow> real \<Rightarrow> Env" where
  "fieldEnv rv t =
     \<lparr>clientWidth = 800, clientHeight = 600, canvasHeight = 600,
      randomValues = rv, dateNowValues = (\<lambda>k. t)\<rparr>"

text \<open>A canvas narrower and lower than the player.\<close>

definition narrowEnv :: Env where
  "narrowEnv =
     \<lparr>clientWidth = 30, clientHeight = 20, canvasHeight = 20,
      randomValues = (\<lambda>k. 1 / 2), dateNowValues = (\<lambda>k. 1000)\<rparr>"

text \<open>A world whose player has been dragged far out of the field to the right and above it.\<close>

definition draggedWorld :: World where
  "draggedWorld = initialWorld\<lparr>player := \<lparr>pl_x = 5000, pl_y = - 700, pl_invincibility = 0\<rparr>,
                                keys := (\<lambda>k. k = ''ArrowRight'' \<or> k = ''w'')\<rparr>"

text \<open>Draws 0.8, then 0.95 for ever.\<close>

definition draws_08_095 :: "nat \<Rightarrow> real" where
  "draws_08_095 k = (if k = 0 then 0.8 else 0.95)"

text \<open>An enemy of the given variant as the constructor builds it, placed at \<open>(x, y)\<close>.\<close>

definition enemyAt :: "EnemyType \<Rightarrow> real \<Rightarrow> real \<Rightarrow> Enemy" where
  "enemyAt ty x y =
     (let config = ENEMY_CONFIGS ty
      in \<lparr>e_x = x, e_y = y, e_type = ty,
          e_size = cfg_size config, e_speed = cfg_speed config, e_health = cfg_health config,
          e_points = cfg_points config, e_color = cfg_color config, e_glow = cfg_glow config\<rparr>)"

text \<open>A running game at the end of level 4: all 40 enemies spawned, none left.\<close>

definition levelEndWorld :: World where
  "levelEndWorld =
     initialWorld\<lparr>gameState := PLAYING, level := 4, enemiesSpawnedInLevel := 40,
                   player := \<lparr>pl_x = 380, pl_y = 540, pl_invincibility = 0\<rparr>\<rparr>"

text \<open>
  A running game at time 1000 in which the player holds a shield until 9000 and a triple
  shot until 8000, an enemy bullet is about to move into the player and a basic enemy is
  about to touch it; the player is invincible until the given time.
\<close>

definition shieldAndTriple :: "ActivePowerUp list" where
  "shieldAndTriple =
     [\<lparr>ap_type = SHIELD, ap_endTime = 9000\<rparr>, \<lparr>ap_type = TRIPLE_SHOT, ap_endTime = 8000\<rparr>]"

definition incomingBullet :: Bullet where
  "incomingBullet = new_Bullet 400 550 0 4 ''#ef4444'' True"

definition underFireWorld :: "real \<Rightarrow> World" where
  "underFireWorld until =
     initialWorld\<lparr>gameState := PLAYING,
                   player := \<lparr>pl_x = 380, pl_y = 540, pl_invincibility = until\<rparr>,
                   enemyBullets := [incomingBullet],
                   enemies := [enemyAt BASIC 390 530],
                   activePowerUps := shieldAndTriple\<rparr>"

text \<open>
  A running game at level 1 whose player holds a triple shot until 9000 and sits right
  below one basic enemy (health 1, 100 points); no bullet is in flight.
\<close>

definition pointBlankWorld :: World where
  "pointBlankWorld =
     initialWorld\<lparr>gameState := PLAYING,
                   player := \<lparr>pl_x = 380, pl_y = 540, pl_invincibility = 0\<rparr>,
                   enemies := [enemyAt BASIC 385 498],
                   enemiesSpawnedInLevel := 1,
                   activePowerUps := [\<lparr>ap_type = TRIPLE_SHOT, ap_endTime = 9000\<rparr>]\<rparr>"

text \<open>
  A running game at level 1 whose player, with no power-up, sits right below one basic
  enemy; no bullet is in flight and no particle is alive.
\<close>

definition singleShotWorld :: World where
  "singleShotWorld = pointBlankWorld\<lparr>activePowerUps := []\<rparr>"

text \<open>A running game with two basic enemies near the top of the field, away from the player.\<close>

definition twoEnemyWorld :: World where
  "twoEnemyWorld =
     initialWorld\<lparr>gameState := PLAYING,
                   player := \<lparr>pl_x = 380, pl_y = 540, pl_invincibility = 0\<rparr>,
                   enemies := [enemyAt BASIC 100 50, enemyAt BASIC 300 80]\<rparr>"

text \<open>Draws 0, then 0.5 for ever.\<close>

definition draws_0_05 :: "nat \<Rightarrow> real" where
  "draws_0_05 k = (if k = 0 then 0 else 0.5)"

text \<open>
  An 800 x 600 field whose clock returns \<open>t0\<close> at its first call and \<open>t1\<close> from then on.
\<close>

definition clockEnv :: "real \<Rightarrow> real \<Rightarrow> Env" where
  "clockEnv t0 t1 =
     \<lparr>clientWidth = 800, clientHeight = 600, canvasHeight = 600,
      randomValues = (\<lambda>k. 1 / 2), dateNowValues = (\<lambda>k. if k = 0 then t0 else t1)\<rparr>"

text \<open>A shield power-up that the player of the sample worlds touches once it has moved.\<close>

definition shieldPowerUp :: PowerUp where
  "shieldPowerUp = \<lparr>pu_x = 385, pu_y = 520, pu_type = SHIELD, pu_size = POWERUP_SIZE, pu_speed = 1.5\<rparr>"

text \<open>
  A running game whose player is about to touch two shield power-ups at once and holds
  no power-up yet.
\<close>

definition twoShieldsWorld :: World where
  "twoShieldsWorld =
     initialWorld\<lparr>gameState := PLAYING,
                   player := \<lparr>pl_x = 380, pl_y = 540, pl_invincibility = 0\<rparr>,
                   powerUps := [shieldPowerUp, shieldPowerUp]\<rparr>"

section \<open>Properties\<close>

subsection \<open>What each operation leaves alone\<close>

lemma Math_random_fields [simp]:
  "fst (Math_random env w) = randomValues env (randomCalls w)"
  "player (snd (Math_random env w)) = player w"
  "lives (snd (Math_random env w)) = lives w"
  "gameState (snd (Math_random env w)) = gameState w"
  "activePowerUps (snd (Math_random env w)) = activePowerUps w"
  "level (snd (Math_random env w)) = level w"
  "enemyBullets (snd (Math_random env w)) = enemyBullets w"
  "bullets (snd (Math_random env w)) = bullets w"
  "score (snd (Math_random env w)) = score w"
  "enemiesKilled (snd (Math_random env w)) = enemiesKilled w"
  "particles (snd (Math_random env w)) = particles w"
  "enemies (snd (Math_random env w)) = enemies w"
  "enemiesSpawnedInLevel (snd (Math_random env w)) = enemiesSpawnedInLevel w"
  "randomCalls (snd (Math_random env w)) = Suc (randomCalls w)"
  by (simp_all add: Math_random_def)

lemma unlockAchievement_fields [simp]:
  "player (unlockAchievement i w) = player w"
  "lives (unlockAchievement i w) = lives w"
  "gameState (unlockAchievement i w) = gameState w"
  "activePowerUps (unlockAchievement i w) = activePowerUps w"
  "level (unlockAchievement i w) = level w"
  "enemyBullets (unlockAchievement i w) = enemyBullets w"
  "bullets (unlockAchievement i w) = bullets w"
  "score (unlockAchievement i w) = score w"
  "enemiesKilled (unlockAchievement i w) = enemiesKilled w"
  "particles (unlockAchievement i w) = particles w"
  "enemies (unlockAchievement i w) = enemies w"
  "enemiesSpawnedInLevel (unlockAchievement i w) = enemiesSpawnedInLevel w"
  "randomCalls (unlockAchievement i w) = randomCalls w"
  "powerUpsPicked (unlockAchievement i w) = powerUpsPicked w"
  "dateNowCalls (unlockAchievement i w) = dateNowCalls w"
  by (simp_all add: unlockAchievement_def Let_def split: option.splits)

lemma pushParticle_fields [simp]:
  "player (pushParticle env e w) = player w"
  "lives (pushParticle env e w) = lives w"
  "gameState (pushParticle env e w) = gameState w"
  "activePowerUps (pushParticle env e w) = activePowerUps w"
  "level (pushParticle env e w) = level w"
  "enemyBullets (pushParticle env e w) = enemyBullets w"
  "bullets (pushParticle env e w) = bullets w"
  "score (pushParticle env e w) = score w"
  "enemiesKilled (pushParticle env e w) = enemiesKilled w"
  "enemies (pushParticle env e w) = enemies w"
  "enemiesSpawnedInLevel (pushParticle env e w) = enemiesSpawnedInLevel w"
  "length (particles (pushParticle env e w)) = Suc (length (particles w))"
  "randomCalls (pushParticle env e w) = randomCalls w + 2"
  by (simp_all add: pushParticle_def new_Particle_def Math_random_def Let_def)

lemma fold_pushParticle_fields [simp]:
  "player (fold (\<lambda>i. pushParticle env e) xs w) = player w"
  "lives (fold (\<lambda>i. pushParticle env e) xs w) = lives w"
  "gameState (fold (\<lambda>i. pushParticle env e) xs w) = gameState w"
  "activePowerUps (fold (\<lambda>i. pushParticle env e) xs w) = activePowerUps w"
  "level (fold (\<lambda>i. pushParticle env e) xs w) = level w"
  "enemyBullets (fold (\<lambda>i. pushParticle env e) xs w) = enemyBullets w"
  "bullets (fold (\<lambda>i. pushParticle env e) xs w) = bullets w"
  "score (fold (\<lambda>i. pushParticle env e) xs w) = score w"
  "enemiesKilled (fold (\<lambda>i. pushParticle env e) xs w) = enemiesKilled w"
  "enemies (fold (\<lambda>i. pushParticle env e) xs w) = enemies w"
  "enemiesSpawnedInLevel (fold (\<lambda>i. pushParticle env e) xs w) = enemiesSpawnedInLevel w"
  "length (particles (fold (\<lambda>i. pushParticle env e) xs w)) = length (particles w) + length xs"
  "randomCalls (fold (\<lambda>i. pushParticle env e) xs w) = randomCalls w + 2 * length xs"
  by (induction xs arbitrary: w; simp)+

lemma spawnPowerUp_fields [simp]:
  "player (spawnPowerUp env lvl w) = player w"
  "lives (spawnPowerUp env lvl w) = lives w"
  "gameState (spawnPowerUp env lvl w) = gameState w"
  "activePowerUps (spawnPowerUp env lvl w) = activePowerUps w"
  "level (spawnPowerUp env lvl w) = level w"
  "enemyBullets (spawnPowerUp env lvl w) = enemyBullets w"
  "bullets (spawnPowerUp env lvl w) = bullets w"
  "score (spawnPowerUp env lvl w) = score w"
  "enemiesKilled (spawnPowerUp env lvl w) = enemiesKilled w"
  "particles (spawnPowerUp env lvl w) = particles w"
  "enemies (spawnPowerUp env lvl w) = enemies w"
  "enemiesSpawnedInLevel (spawnPowerUp env lvl w) = enemiesSpawnedInLevel w"
  by (simp_all add: spawnPowerUp_def new_PowerUp_def Math_random_def Let_def)

lemma killEffects_fields [simp]:
  "player (killEffects env lvl e w) = player w"
  "lives (killEffects env lvl e w) = lives w"
  "gameState (killEffects env lvl e w) = gameState w"
  "activePowerUps (killEffects env lvl e w) = activePowerUps w"
  "level (killEffects env lvl e w) = level w"
  "enemyBullets (killEffects env lvl e w) = enemyBullets w"
  "bullets (killEffects env lvl e w) = bullets w"
  "enemies (killEffects env lvl e w) = enemies w"
  "enemiesSpawnedInLevel (killEffects env lvl e w) = enemiesSpawnedInLevel w"
  "score (killEffects env lvl e w) = score w + e_points e"
  "enemiesKilled (killEffects env lvl e w) = enemiesKilled w + 1"
  "length (particles (killEffects env lvl e w)) = length (particles w) + 10"
  by (simp_all add: killEffects_def Let_def)

lemma handleInput_player:
  "pl_x (player (handleInput env w)) =
     max 0 (min (clientWidth env - PLAYER_SIZE)
       (pl_x (player w) - (if keys w ''ArrowLeft'' \<or> keys w ''a'' then PLAYER_SPEED else 0)
                        + (if keys w ''ArrowRight'' \<or> keys w ''d'' then PLAYER_SPEED else 0)))"
  "pl_y (player (handleInput env w)) =
     max 0 (min (clientHeight env - PLAYER_SIZE)
       (pl_y (player w) - (if keys w ''ArrowUp'' \<or> keys w ''w'' then PLAYER_SPEED else 0)
                        + (if keys w ''ArrowDown'' \<or> keys w ''s'' then PLAYER_SPEED else 0)))"
  "pl_invincibility (player (handleInput env w)) = pl_invincibility (player w)"
  unfolding handleInput_def Let_def
  by (cases "keys w ''ArrowLeft'' \<or> keys w ''a''"; cases "keys w ''ArrowRight'' \<or> keys w ''d''";
      cases "keys w ''ArrowUp'' \<or> keys w ''w''"; cases "keys w ''ArrowDown'' \<or> keys w ''s''";
      simp)+

lemma handleInput_player_only: "\<exists>p. handleInput env w = w\<lparr>player := p\<rparr>"
  unfolding handleInput_def Let_def by (rule exI, rule refl)

lemma handleInput_fields [simp]:
  "lives (handleInput env w) = lives w"
  "gameState (handleInput env w) = gameState w"
  "activePowerUps (handleInput env w) = activePowerUps w"
  "level (handleInput env w) = level w"
  "dateNowCalls (handleInput env w) = dateNowCalls w"
  using handleInput_player_only [of env w] by auto

lemma autoShoot_fields [simp]:
  "player (autoShoot now aps w) = player w"
  "lives (autoShoot now aps w) = lives w"
  "gameState (autoShoot now aps w) = gameState w"
  "activePowerUps (autoShoot now aps w) = activePowerUps w"
  "level (autoShoot now aps w) = level w"
  by (simp_all add: autoShoot_def Let_def)

lemma clamp_bounds:
  "0 \<le> max 0 (min (W - PLAYER_SIZE) (x::real))"
  "PLAYER_SIZE \<le> W \<Longrightarrow> max 0 (min (W - PLAYER_SIZE) (x::real)) \<le> W - PLAYER_SIZE"
  "W < PLAYER_SIZE \<Longrightarrow> max 0 (min (W - PLAYER_SIZE) (x::real)) = 0"
  by auto

subsection \<open>Input handling: the clamp\<close>

text \<open>
  C10, as stated, fails: in a field narrower than the player the clamp leaves the player
  at x = 0, which is above \<open>fieldWidth - PLAYER_SIZE\<close> (negative there); likewise for y.
\<close>

theorem handleInput_clamp_narrow_field:
  "pl_x (player (handleInput narrowEnv draggedWorld)) = 0 \<and>
   \<not> pl_x (player (handleInput narrowEnv draggedWorld)) \<le> clientWidth narrowEnv - PLAYER_SIZE \<and>
   pl_y (player (handleInput narrowEnv draggedWorld)) = 0 \<and>
   \<not> pl_y (player (handleInput narrowEnv draggedWorld)) \<le> clientHeight narrowEnv - PLAYER_SIZE"
  by (simp add: handleInput_player narrowEnv_def draggedWorld_def initialWorld_def
      PLAYER_SIZE_def PLAYER_SPEED_def)

text \<open>
  C10, amended: after the input-handling phase of every tick the player's position
  satisfies \<open>0 \<le> x\<close> and \<open>0 \<le> y\<close>, whatever the keys and the position before the
  clamp; \<open>x \<le> fieldWidth - PLAYER_SIZE\<close> holds when the field is at least
  \<open>PLAYER_SIZE\<close> wide and \<open>y \<le> fieldHeight - PLAYER_SIZE\<close> when it is at least
  \<open>PLAYER_SIZE\<close> high; in a narrower (lower) field the coordinate is 0.
\<close>

theorem handleInput_clamp:
  "0 \<le> pl_x (player (handleInput env w)) \<and>
   0 \<le> pl_y (player (handleInput env w)) \<and>
   (PLAYER_SIZE \<le> clientWidth env \<longrightarrow>
      pl_x (player (handleInput env w)) \<le> clientWidth env - PLAYER_SIZE) \<and>
   (PLAYER_SIZE \<le> clientHeight env \<longrightarrow>
      pl_y (player (handleInput env w)) \<le> clientHeight env - PLAYER_SIZE) \<and>
   (clientWidth env < PLAYER_SIZE \<longrightarrow> pl_x (player (handleInput env w)) = 0) \<and>
   (clientHeight env < PLAYER_SIZE \<longrightarrow> pl_y (player (handleInput env w)) = 0)"
  unfolding handleInput_player
  by (intro conjI impI clamp_bounds; assumption)

theorem handleInput_clamp_witness:
  "PLAYER_SIZE \<le> clientWidth (fieldEnv (\<lambda>k. 0) 1000) \<and>
   PLAYER_SIZE \<le> clientHeight (fieldEnv (\<lambda>k. 0) 1000) \<and>
   clientWidth narrowEnv < PLAYER_SIZE \<and> clientHeight narrowEnv < PLAYER_SIZE \<and>
   pl_x (player (handleInput (fieldEnv (\<lambda>k. 0) 1000) draggedWorld)) \<le> 760 \<and>
   pl_y (player (handleInput (fieldEnv (\<lambda>k. 0) 1000) draggedWorld)) \<le> 560 \<and>
   0 \<le> pl_y (player (handleInput (fieldEnv (\<lambda>k. 0) 1000) draggedWorld)) \<and>
   pl_x (player (handleInput narrowEnv draggedWorld)) = 0 \<and>
   pl_y (player (handleInput narrowEnv draggedWorld)) = 0"
  using handleInput_clamp [of "fieldEnv (\<lambda>k. 0) 1000" draggedWorld]
        handleInput_clamp [of narrowEnv draggedWorld]
  by (simp add: fieldEnv_def narrowEnv_def PLAYER_SIZE_def)

subsection \<open>Automatic shooting\<close>

text \<open>
  C8, as stated, fails at the boundary: when exactly 150 ms have elapsed since the last
  shot (so at least 150 ms have), no bullet is added and the last-shot timestamp stays.
\<close>

theorem autoShoot_at_150_ms:
  "150 - lastShot initialWorld \<ge> 150 \<and>
   bullets (autoShoot 150 [] initialWorld) = bullets initialWorld \<and>
   lastShot (autoShoot 150 [] initialWorld) = 0"
  by (simp add: autoShoot_def initialWorld_def Let_def)

text \<open>
  C8, amended: in every tick in which more than 150 ms have elapsed since the last-shot
  timestamp (\<open>now - lastShot > 150\<close>), exactly three player bullets with horizontal
  velocities -2, 0, +2 and vertical velocity \<open>- BULLET_SPEED\<close> are appended at the
  player's top centre when a TRIPLE_SHOT entry with \<open>endTime > now\<close> exists, otherwise
  exactly one straight bullet; in both cases the last-shot timestamp becomes \<open>now\<close>. If
  150 ms or fewer have elapsed, nothing changes.
\<close>

theorem autoShoot_fires:
  "(now - lastShot w > 150 \<longrightarrow>
      lastShot (autoShoot now aps w) = now \<and>
      bullets (autoShoot now aps w) = bullets w @
         (if \<exists>p \<in> set aps. ap_type p = TRIPLE_SHOT \<and> ap_endTime p > now
          then map (\<lambda>vx. new_Bullet (pl_x (player w) + PLAYER_SIZE / 2) (pl_y (player w))
                          vx (- BULLET_SPEED) ''#f59e0b'' False) [- 2, 0, 2]
          else [new_Bullet (pl_x (player w) + PLAYER_SIZE / 2) (pl_y (player w))
                          0 (- BULLET_SPEED) ''#fff'' False])) \<and>
   (now - lastShot w \<le> 150 \<longrightarrow> autoShoot now aps w = w)"
  by (auto simp add: autoShoot_def hasTriple_def list_ex_iff Let_def)

theorem autoShoot_fires_witness:
  "(1000 :: real) - lastShot initialWorld > 150 \<and>
   lastShot (autoShoot 1000 [\<lparr>ap_type = TRIPLE_SHOT, ap_endTime = 5000\<rparr>] initialWorld) = 1000 \<and>
   length (bullets (autoShoot 1000 [\<lparr>ap_type = TRIPLE_SHOT, ap_endTime = 5000\<rparr>] initialWorld)) = 3 \<and>
   (100 :: real) - lastShot initialWorld \<le> 150 \<and>
   autoShoot 100 [] initialWorld = initialWorld"
  using autoShoot_fires [of 1000 initialWorld "[\<lparr>ap_type = TRIPLE_SHOT, ap_endTime = 5000\<rparr>]"]
        autoShoot_fires [of 100 initialWorld "[]"]
  by (auto simp add: initialWorld_def)

declare forEachBullet.simps [simp del]

lemma forEachBullet_fields:
  "player (snd (snd (forEachBullet env lvl k len s))) = player (snd (snd s)) \<and>
   lives (snd (snd (forEachBullet env lvl k len s))) = lives (snd (snd s)) \<and>
   gameState (snd (snd (forEachBullet env lvl k len s))) = gameState (snd (snd s)) \<and>
   activePowerUps (snd (snd (forEachBullet env lvl k len s))) = activePowerUps (snd (snd s)) \<and>
   level (snd (snd (forEachBullet env lvl k len s))) = level (snd (snd s)) \<and>
   enemyBullets (snd (snd (forEachBullet env lvl k len s))) = enemyBullets (snd (snd s)) \<and>
   enemies (snd (snd (forEachBullet env lvl k len s))) = enemies (snd (snd s)) \<and>
   enemiesSpawnedInLevel (snd (snd (forEachBullet env lvl k len s))) = enemiesSpawnedInLevel (snd (snd s))"
proof (induction env lvl k len s rule: forEachBullet.induct)
  case (1 env lvl bIdx len e hit w)
  show ?case
    by (subst (1 2 3 4 5 6 7 8) forEachBullet.simps) (use 1 in \<open>simp add: Let_def\<close>)
qed

lemma enemyFire_fields [simp]:
  "player (enemyFire env lvl e w) = player w"
  "lives (enemyFire env lvl e w) = lives w"
  "gameState (enemyFire env lvl e w) = gameState w"
  "activePowerUps (enemyFire env lvl e w) = activePowerUps w"
  "level (enemyFire env lvl e w) = level w"
  "enemies (enemyFire env lvl e w) = enemies w"
  "enemiesSpawnedInLevel (enemyFire env lvl e w) = enemiesSpawnedInLevel w"
  "bullets (enemyFire env lvl e w) = bullets w"
  by (simp_all add: enemyFire_def Math_random_def Let_def)

lemma enemyVsPlayer_fields [simp]:
  "level (snd (enemyVsPlayer now aps e hw)) = level (snd hw)"
  "enemyBullets (snd (enemyVsPlayer now aps e hw)) = enemyBullets (snd hw)"
  "enemies (snd (enemyVsPlayer now aps e hw)) = enemies (snd hw)"
  "enemiesSpawnedInLevel (snd (enemyVsPlayer now aps e hw)) = enemiesSpawnedInLevel (snd hw)"
  by (simp_all add: enemyVsPlayer_def consumeShield_def loseLife_def Let_def split: prod.splits)


lemma pickUp_fields [simp]:
  "level (pickUp env p w) = level w"
  "player (pickUp env p w) = player w"
  "enemies (pickUp env p w) = enemies w"
  "enemiesSpawnedInLevel (pickUp env p w) = enemiesSpawnedInLevel w"
  "enemyBullets (pickUp env p w) = enemyBullets w"
  by (simp_all add: pickUp_def Date_now_def Let_def)

lemma spawnEnemy_fields [simp]:
  "level (spawnEnemy env lvl w) = level w"
  "player (spawnEnemy env lvl w) = player w"
  "lives (spawnEnemy env lvl w) = lives w"
  "gameState (spawnEnemy env lvl w) = gameState w"
  "activePowerUps (spawnEnemy env lvl w) = activePowerUps w"
  "enemyBullets (spawnEnemy env lvl w) = enemyBullets w"
  "randomCalls (spawnEnemy env lvl w) = randomCalls w + 2"
  "enemiesSpawnedInLevel (spawnEnemy env lvl w) = enemiesSpawnedInLevel w + 1"
  by (simp_all add: spawnEnemy_def new_Enemy_def Math_random_def Let_def)

lemma maybeSpawnEnemy_fields [simp]:
  "level (maybeSpawnEnemy env lvl w) = level w"
  "player (maybeSpawnEnemy env lvl w) = player w"
  "lives (maybeSpawnEnemy env lvl w) = lives w"
  "gameState (maybeSpawnEnemy env lvl w) = gameState w"
  "activePowerUps (maybeSpawnEnemy env lvl w) = activePowerUps w"
  "enemyBullets (maybeSpawnEnemy env lvl w) = enemyBullets w"
  by (simp_all add: maybeSpawnEnemy_def Math_random_def Let_def)

subsection \<open>The variant of a spawned enemy\<close>

text \<open>
  C2, as stated, fails: \<open>spawnEnemy\<close> draws one random number for the variant and
  compares that same number with both thresholds (its second draw places the enemy).
  With the draws 0.8, 0.95, 0.95 at level 3 the code spawns a FAST enemy after two calls of
  \<open>Math.random\<close>, where three independent draws would have given HEAVY.
\<close>

theorem spawnEnemy_single_draw:
  "map e_type (enemies (spawnEnemy (fieldEnv draws_08_095 1000) 3 initialWorld)) = [FAST] \<and>
   randomCalls (spawnEnemy (fieldEnv draws_08_095 1000) 3 initialWorld) = 2 \<and>
   spawnEnemy_type_independent 3 (draws_08_095 0) (draws_08_095 1) (draws_08_095 2) = HEAVY"
  by (simp add: spawnEnemy_def spawnEnemy_type_def new_Enemy_def Math_random_def
      spawnEnemy_type_independent_def fieldEnv_def draws_08_095_def initialWorld_def Let_def)

text \<open>
  C2, amended: for every enemy spawn at a given level the variant is selected from a
  single random draw \<open>r\<close> compared with two fixed thresholds: BASIC by default, FAST when
  \<open>level \<ge> 2\<close> and \<open>r > 0.7\<close>, HEAVY when \<open>level \<ge> 3\<close> and \<open>r > 0.9\<close>, the heavy
  check overriding the fast one; so the draw is partitioned into exclusive ranges. The
  spawn appends exactly one enemy of that variant, counts it, and draws one more number
  for its horizontal position.
\<close>

theorem spawnEnemy_variant:
  "map e_type (enemies (spawnEnemy env lvl w)) =
     map e_type (enemies w) @
       [if lvl \<ge> 3 \<and> randomValues env (randomCalls w) > 0.9 then HEAVY
        else if lvl \<ge> 2 \<and> randomValues env (randomCalls w) > 0.7 then FAST
        else BASIC] \<and>
   enemiesSpawnedInLevel (spawnEnemy env lvl w) = enemiesSpawnedInLevel w + 1 \<and>
   randomCalls (spawnEnemy env lvl w) = randomCalls w + 2"
  by (simp add: spawnEnemy_def spawnEnemy_type_def new_Enemy_def Math_random_def Let_def)

lemma forEachBullet_frame [simp]:
  "player (snd (snd (forEachBullet env lvl k len s))) = player (snd (snd s))"
  "lives (snd (snd (forEachBullet env lvl k len s))) = lives (snd (snd s))"
  "gameState (snd (snd (forEachBullet env lvl k len s))) = gameState (snd (snd s))"
  "activePowerUps (snd (snd (forEachBullet env lvl k len s))) = activePowerUps (snd (snd s))"
  "level (snd (snd (forEachBullet env lvl k len s))) = level (snd (snd s))"
  "enemyBullets (snd (snd (forEachBullet env lvl k len s))) = enemyBullets (snd (snd s))"
  "enemies (snd (snd (forEachBullet env lvl k len s))) = enemies (snd (snd s))"
  "enemiesSpawnedInLevel (snd (snd (forEachBullet env lvl k len s))) = enemiesSpawnedInLevel (snd (snd s))"
  using forEachBullet_fields [of env lvl k len s] by simp_all

lemma enemyResolve_world:
  "snd (enemyResolve env now lvl aps e w) =
     (let r = forEachBullet env lvl 0 (length (bullets (enemyFire env lvl e w)))
                (e, False, enemyFire env lvl e w)
      in snd (enemyVsPlayer now aps (fst r) (snd r)))"
  by (simp add: enemyResolve_def Let_def split: prod.splits)

lemma enemyResolve_fields [simp]:
  "level (snd (enemyResolve env now lvl aps e w)) = level w"
  "enemies (snd (enemyResolve env now lvl aps e w)) = enemies w"
  "enemiesSpawnedInLevel (snd (enemyResolve env now lvl aps e w)) = enemiesSpawnedInLevel w"
  "enemyBullets (snd (enemyResolve env now lvl aps e w)) = enemyBullets (enemyFire env lvl e w)"
  by (simp_all add: enemyResolve_world Let_def)

lemma update_passes:
  "updateBullets env w =
     (snd (filterWith (bulletCallback env) (bullets w) w))
       \<lparr>bullets := fst (filterWith (bulletCallback env) (bullets w) w)\<rparr>"
  "updateEnemyBullets env now aps w =
     (snd (filterWith (enemyBulletCallback env now aps) (enemyBullets w) w))
       \<lparr>enemyBullets := fst (filterWith (enemyBulletCallback env now aps) (enemyBullets w) w)\<rparr>"
  "updateEnemies env now lvl aps w =
     (snd (filterWith (enemyCallback env now lvl aps) (enemies w) w))
       \<lparr>enemies := fst (filterWith (enemyCallback env now lvl aps) (enemies w) w)\<rparr>"
  "updatePowerUps env w =
     (snd (filterWith (powerUpCallback env) (powerUps w) w))
       \<lparr>powerUps := fst (filterWith (powerUpCallback env) (powerUps w) w)\<rparr>"
  "updateParticles w =
     (snd (filterWith particleCallback (particles w) w))
       \<lparr>particles := fst (filterWith particleCallback (particles w) w)\<rparr>"
  by (simp_all add: updateBullets_def updateEnemyBullets_def updateEnemies_def
      updatePowerUps_def updateParticles_def case_prod_unfold Let_def)

lemma fireChance_range: "10 \<le> lvl \<Longrightarrow> 0.005 \<le> fireChance lvl \<and> fireChance lvl \<le> 0.05"
  by (auto simp add: fireChance_def min_def)

lemma enemyFire_enemyBullets:
  "enemyBullets (enemyFire env lvl e w) =
     enemyBullets w @
       (if 10 \<le> lvl \<and> randomValues env (randomCalls w) < fireChance lvl
        then [new_Bullet (e_x e + e_size e / 2) (e_y e + e_size e) 0 4 ''#ef4444'' True]
        else [])"
  by (simp add: enemyFire_def Math_random_def Let_def)

lemma filterWith_preserves:
  assumes "\<And>x s. f (snd (cb x s)) = f s"
  shows "f (snd (filterWith cb xs s)) = f s"
proof (induction xs arbitrary: s)
  case Nil
  show ?case by simp
next
  case (Cons x xs)
  have "f (snd (filterWith cb (x # xs) s)) = f (snd (filterWith cb xs (snd (cb x s))))"
    by (simp add: case_prod_unfold Let_def)
  then show ?case
    using Cons.IH assms by simp
qed

lemma find_unlocked:
  "find (\<lambda>a. ach_id a = i) (map (\<lambda>a. if ach_id a = j then a\<lparr>unlocked := True\<rparr> else a) xs) =
     (if i = j then map_option (\<lambda>a. a\<lparr>unlocked := True\<rparr>) (find (\<lambda>a. ach_id a = i) xs)
      else find (\<lambda>a. ach_id a = i) xs)"
  by (induction xs) auto

lemma unlockAchievement_ids [simp]:
  "achievementIds (unlockAchievement i w) = achievementIds w"
  by (auto simp add: achievementIds_def unlockAchievement_def Let_def split: option.splits)

lemma unlockAchievement_unlocks:
  "i \<in> set (achievementIds w) \<Longrightarrow> achievementUnlocked i (unlockAchievement i w)"
proof -
  assume "i \<in> set (achievementIds w)"
  then obtain a where a: "find (\<lambda>a. ach_id a = i) (achievements w) = Some a"
    by (cases "find (\<lambda>a. ach_id a = i) (achievements w)")
       (auto simp add: achievementIds_def find_None_iff)
  show ?thesis
    using a by (simp add: achievementUnlocked_def unlockAchievement_def find_unlocked Let_def)
qed

lemma unlockAchievement_keeps:
  "achievementUnlocked i w \<Longrightarrow> achievementUnlocked i (unlockAchievement j w)"
  by (auto simp add: achievementUnlocked_def unlockAchievement_def find_unlocked Let_def
      split: option.splits)


lemma forEachBullet_preserves:
  assumes "\<And>env lvl e w. f (killEffects env lvl e w) = f w"
      and "\<And>w bs. f (w\<lparr>bullets := bs\<rparr>) = f w"
  shows "f (snd (snd (forEachBullet env lvl k len s))) = f (snd (snd s))"
proof (induction env lvl k len s rule: forEachBullet.induct)
  case (1 env lvl bIdx len e hit w)
  show ?case
    by (subst forEachBullet.simps) (use 1 assms in \<open>simp add: Let_def\<close>)
qed

lemma achievementIds_basic [simp]:
  "achievementIds (snd (Math_random env w)) = achievementIds w"
  "achievementIds (snd (Date_now env w)) = achievementIds w"
  "achievementIds (pushParticle env e w) = achievementIds w"
  "achievementIds (spawnPowerUp env lvl w) = achievementIds w"
  "achievementIds (enemyFire env lvl e w) = achievementIds w"
  "achievementIds (consumeShield w) = achievementIds w"
  "achievementIds (loseLife w) = achievementIds w"
  "achievementIds (autoShoot now aps w) = achievementIds w"
  "achievementIds (spawnEnemy env lvl w) = achievementIds w"
  "achievementIds (maybeSpawnEnemy env lvl w) = achievementIds w"
  by (simp_all add: achievementIds_def Math_random_def Date_now_def pushParticle_def
      new_Particle_def spawnPowerUp_def new_PowerUp_def enemyFire_def consumeShield_def
      loseLife_def autoShoot_def spawnEnemy_def new_Enemy_def maybeSpawnEnemy_def Let_def)

lemma achievementIds_updates [simp]:
  "achievementIds (w\<lparr>bullets := bs\<rparr>) = achievementIds w"
  "achievementIds (w\<lparr>enemyBullets := bs\<rparr>) = achievementIds w"
  "achievementIds (w\<lparr>enemies := es\<rparr>) = achievementIds w"
  "achievementIds (w\<lparr>powerUps := ps\<rparr>) = achievementIds w"
  "achievementIds (w\<lparr>particles := pts\<rparr>) = achievementIds w"
  "achievementIds (w\<lparr>player := p\<rparr>) = achievementIds w"
  "achievementIds (w\<lparr>score := sc\<rparr>) = achievementIds w"
  "achievementIds (w\<lparr>lives := l\<rparr>) = achievementIds w"
  "achievementIds (w\<lparr>level := lv\<rparr>) = achievementIds w"
  "achievementIds (w\<lparr>enemiesKilled := n\<rparr>) = achievementIds w"
  "achievementIds (w\<lparr>powerUpsPicked := n\<rparr>) = achievementIds w"
  "achievementIds (w\<lparr>enemiesSpawnedInLevel := n\<rparr>) = achievementIds w"
  "achievementIds (w\<lparr>activePowerUps := a\<rparr>) = achievementIds w"
  "achievementIds (w\<lparr>dateNowCalls := k\<rparr>) = achievementIds w"
  "achievementIds (w\<lparr>randomCalls := k\<rparr>) = achievementIds w"
  by (simp_all add: achievementIds_def)

lemma achievementIds_handleInput [simp]:
  "achievementIds (handleInput env w) = achievementIds w"
  using handleInput_player_only [of env w] by auto

lemma achievementIds_fold_pushParticle [simp]:
  "achievementIds (fold (\<lambda>i. pushParticle env e) xs w) = achievementIds w"
  by (induction xs arbitrary: w) simp_all

lemma achievementIds_killEffects [simp]:
  "achievementIds (killEffects env lvl e w) = achievementIds w"
  by (simp add: killEffects_def Let_def)

lemma achievementIds_forEachBullet [simp]:
  "achievementIds (snd (snd (forEachBullet env lvl k len s))) = achievementIds (snd (snd s))"
  by (rule forEachBullet_preserves) simp_all

lemma achievementIds_enemyVsPlayer [simp]:
  "achievementIds (snd (enemyVsPlayer now aps e hw)) = achievementIds (snd hw)"
  by (simp add: enemyVsPlayer_def Let_def case_prod_unfold)

lemma achievementIds_pickUp [simp]:
  "achievementIds (pickUp env p w) = achievementIds w"
  by (simp add: pickUp_def Let_def case_prod_unfold)

lemma callbacks_level [simp]:
  "level (snd (bulletCallback env b w)) = level w"
  "level (snd (enemyBulletCallback env now aps b w)) = level w"
  "level (snd (enemyCallback env now lvl aps e w)) = level w"
  "level (snd (powerUpCallback env p w)) = level w"
  "level (snd (particleCallback pt w)) = level w"
  by (simp_all add: bulletCallback_def enemyBulletCallback_def enemyBulletResolve_def
      consumeShield_def loseLife_def enemyCallback_def powerUpCallback_def powerUpResolve_def
      particleCallback_def Let_def)

lemma callbacks_achievementIds [simp]:
  "achievementIds (snd (bulletCallback env b w)) = achievementIds w"
  "achievementIds (snd (enemyBulletCallback env now aps b w)) = achievementIds w"
  "achievementIds (snd (enemyCallback env now lvl aps e w)) = achievementIds w"
  "achievementIds (snd (powerUpCallback env p w)) = achievementIds w"
  "achievementIds (snd (particleCallback pt w)) = achievementIds w"
  by (simp_all add: bulletCallback_def enemyBulletCallback_def enemyBulletResolve_def
      enemyCallback_def enemyResolve_world powerUpCallback_def powerUpResolve_def
      particleCallback_def Let_def)

lemma passes_level [simp]:
  "level (updateBullets env w) = level w"
  "level (updateEnemyBullets env now aps w) = level w"
  "level (updateEnemies env now lvl aps w) = level w"
  "level (updatePowerUps env w) = level w"
  "level (updateParticles w) = level w"
  by (simp_all add: update_passes filterWith_preserves [where f = level])

lemma passes_achievementIds [simp]:
  "achievementIds (updateBullets env w) = achievementIds w"
  "achievementIds (updateEnemyBullets env now aps w) = achievementIds w"
  "achievementIds (updateEnemies env now lvl aps w) = achievementIds w"
  "achievementIds (updatePowerUps env w) = achievementIds w"
  "achievementIds (updateParticles w) = achievementIds w"
  by (simp_all add: update_passes filterWith_preserves [where f = achievementIds])

lemma beforeLevelCheck_fields [simp]:
  "fst (beforeLevelCheck env w) = dateNowValues env (dateNowCalls w)"
  "level (snd (beforeLevelCheck env w)) = level w"
  "achievementIds (snd (beforeLevelCheck env w)) = achievementIds w"
  by (simp_all add: beforeLevelCheck_def Date_now_def Let_def case_prod_unfold)


lemma checkSurvivor_fields [simp]:
  "level (checkSurvivor now w) = level w"
  "lives (checkSurvivor now w) = lives w"
  "enemiesSpawnedInLevel (checkSurvivor now w) = enemiesSpawnedInLevel w"
  "achievementIds (checkSurvivor now w) = achievementIds w"
  by (simp_all add: checkSurvivor_def)

lemma checkSurvivor_keeps:
  "achievementUnlocked i w \<Longrightarrow> achievementUnlocked i (checkSurvivor now w)"
  by (simp add: checkSurvivor_def unlockAchievement_keeps)

lemma checkLevelUp_result:
  "level (checkLevelUp lvl w) = (if levelComplete lvl w then level w + 1 else level w)"
  "enemiesSpawnedInLevel (checkLevelUp lvl w) =
     (if levelComplete lvl w then 0 else enemiesSpawnedInLevel w)"
  "lives (checkLevelUp lvl w) =
     (if levelComplete lvl w \<and> level w + 1 = 15 then lives w + 1 else lives w)"
  by (simp_all add: checkLevelUp_def Let_def)

lemma checkLevelUp_unstoppable:
  "levelComplete lvl w \<Longrightarrow> level w + 1 = 5 \<Longrightarrow> ''unstoppable'' \<in> set (achievementIds w) \<Longrightarrow>
   achievementUnlocked ''unstoppable'' (checkLevelUp lvl w)"
  using unlockAchievement_unlocks [of "''unstoppable''" w]
  by (simp add: checkLevelUp_def Let_def achievementUnlocked_def)

lemma tick_unfold:
  "tick env w =
     checkSurvivor (dateNowValues env (dateNowCalls w))
       (checkLevelUp (level w) (snd (beforeLevelCheck env w)))"
  by (simp add: tick_def Let_def case_prod_unfold)

lemma handleInput_eq:
  "handleInput env w =
     w\<lparr>player :=
        \<lparr>pl_x = max 0 (min (clientWidth env - PLAYER_SIZE)
                  (pl_x (player w)
                   - (if keys w ''ArrowLeft'' \<or> keys w ''a'' then PLAYER_SPEED else 0)
                   + (if keys w ''ArrowRight'' \<or> keys w ''d'' then PLAYER_SPEED else 0))),
         pl_y = max 0 (min (clientHeight env - PLAYER_SIZE)
                  (pl_y (player w)
                   - (if keys w ''ArrowUp'' \<or> keys w ''w'' then PLAYER_SPEED else 0)
                   + (if keys w ''ArrowDown'' \<or> keys w ''s'' then PLAYER_SPEED else 0))),
         pl_invincibility = pl_invincibility (player w)\<rparr>\<rparr>"
proof -
  obtain p where p: "handleInput env w = w\<lparr>player := p\<rparr>"
    using handleInput_player_only by blast
  have whole: "handleInput env w = w\<lparr>player := player (handleInput env w)\<rparr>"
    by (simp add: p)
  have fields: "player (handleInput env w) =
      \<lparr>pl_x = pl_x (player (handleInput env w)), pl_y = pl_y (player (handleInput env w)),
       pl_invincibility = pl_invincibility (player (handleInput env w))\<rparr>"
    by simp
  show ?thesis
    by (subst whole, subst fields, simp only: handleInput_player)
qed

lemmas loop_defs =
  beforeLevelCheck_def tick_def handleInput_eq Date_now_def Math_random_def autoShoot_def
  hasTriple_def hasShield_def new_Bullet_def Bullet_update_def bulletInField_def
  bulletCallback_def updateBullets_def loseLife_def consumeShield_def bulletHitsPlayer_def
  enemyBulletResolve_def enemyBulletCallback_def updateEnemyBullets_def spawnEnemy_type_def
  spawnEnemy_def new_Enemy_def Enemy_update_def spawnPowerUp_def new_PowerUp_def
  maybeSpawnEnemy_def fireChance_def enemyFire_def bulletHitsEnemy_def forEachBullet.simps
  enemyHitsPlayer_def enemyVsPlayer_def enemyResolve_def enemyCallback_def updateEnemies_def
  playerTouchesPowerUp_def activate_def pickUp_def PowerUp_update_def powerUpResolve_def
  powerUpCallback_def updatePowerUps_def Particle_update_def particleCallback_def
  updateParticles_def levelComplete_def checkLevelUp_def checkSurvivor_def
  PLAYER_SIZE_def PLAYER_SPEED_def PLAYER_INITIAL_LIVES_def INVINCIBILITY_DURATION_def
  BULLET_SPEED_def BULLET_SIZE_def POWERUP_SIZE_def POWERUP_DURATION_def
  POWERUP_SPAWN_CHANCE_def ENEMIES_PER_LEVEL_def Let_def

subsection \<open>Level progression\<close>

text \<open>
  C3: in every tick the level completes if and only if, when the tick reaches its level
  check, \<open>enemiesSpawnedInLevel \<ge> ENEMIES_PER_LEVEL * level\<close> and no enemy is left. On
  completion the level grows by exactly 1 and the spawned-this-level counter is reset
  to 0; reaching level 15 grants exactly one life more and reaching level 5 unlocks the
  achievement \<open>unstoppable\<close>. Otherwise level, counter and lives are left as they are.
  The level never decreases.
\<close>

theorem level_progression:
  "let w9 = snd (beforeLevelCheck env w);
       completes = (enemiesSpawnedInLevel w9 \<ge> ENEMIES_PER_LEVEL * level w \<and> enemies w9 = []);
       w' = tick env w
   in level w' = (if completes then level w + 1 else level w) \<and>
      level w \<le> level w' \<and>
      enemiesSpawnedInLevel w' = (if completes then 0 else enemiesSpawnedInLevel w9) \<and>
      lives w' = (if completes \<and> level w + 1 = 15 then lives w9 + 1 else lives w9) \<and>
      (completes \<and> level w + 1 = 5 \<and> ''unstoppable'' \<in> set (achievementIds w) \<longrightarrow>
         achievementUnlocked ''unstoppable'' w')"
proof -
  define w9 where "w9 = snd (beforeLevelCheck env w)"
  have lc: "levelComplete (level w) w9 \<longleftrightarrow>
            enemiesSpawnedInLevel w9 \<ge> ENEMIES_PER_LEVEL * level w \<and> enemies w9 = []"
    by (simp add: levelComplete_def)
  have same: "level w9 = level w" "achievementIds w9 = achievementIds w"
    by (simp_all add: w9_def)
  have unlock: "levelComplete (level w) w9 \<Longrightarrow> level w + 1 = 5 \<Longrightarrow>
                ''unstoppable'' \<in> set (achievementIds w) \<Longrightarrow>
                achievementUnlocked ''unstoppable'' (tick env w)"
    unfolding tick_unfold w9_def [symmetric]
    using checkLevelUp_unstoppable [of "level w" w9] same
    by (simp add: checkSurvivor_keeps)
  show ?thesis
    unfolding Let_def w9_def [symmetric] lc [symmetric]
    using unlock same
    by (auto simp add: tick_unfold w9_def [symmetric] checkLevelUp_result)
qed

theorem level_progression_witness:
  "enemiesSpawnedInLevel (snd (beforeLevelCheck (fieldEnv (\<lambda>k. 1 / 2) 1000) levelEndWorld))
     \<ge> ENEMIES_PER_LEVEL * level levelEndWorld \<and>
   enemies (snd (beforeLevelCheck (fieldEnv (\<lambda>k. 1 / 2) 1000) levelEndWorld)) = [] \<and>
   level levelEndWorld + 1 = 5 \<and>
   ''unstoppable'' \<in> set (achievementIds levelEndWorld) \<and>
   level (tick (fieldEnv (\<lambda>k. 1 / 2) 1000) levelEndWorld) = 5 \<and>
   enemiesSpawnedInLevel (tick (fieldEnv (\<lambda>k. 1 / 2) 1000) levelEndWorld) = 0 \<and>
   achievementUnlocked ''unstoppable'' (tick (fieldEnv (\<lambda>k. 1 / 2) 1000) levelEndWorld)"
proof -
  have spawned: "enemiesSpawnedInLevel (snd (beforeLevelCheck (fieldEnv (\<lambda>k. 1 / 2) 1000) levelEndWorld)) = 40"
    by (simp add: loop_defs levelEndWorld_def initialWorld_def fieldEnv_def)
  have none: "enemies (snd (beforeLevelCheck (fieldEnv (\<lambda>k. 1 / 2) 1000) levelEndWorld)) = []"
    by (simp add: loop_defs levelEndWorld_def initialWorld_def fieldEnv_def)
  have ids: "''unstoppable'' \<in> set (achievementIds levelEndWorld)"
    by (simp add: achievementIds_def levelEndWorld_def initialWorld_def INITIAL_ACHIEVEMENTS_def)
  have lvl: "level levelEndWorld = 4"
    by (simp add: levelEndWorld_def)
  show ?thesis
    using level_progression [of "fieldEnv (\<lambda>k. 1 / 2) 1000" levelEndWorld] spawned none ids lvl
    by (simp add: Let_def ENEMIES_PER_LEVEL_def)
qed

lemma filterWith_invariant:
  assumes "\<And>x s. P s \<Longrightarrow> P (snd (cb x s))" and "P s"
  shows "P (snd (filterWith cb xs s))"
  using assms(2)
proof (induction xs arbitrary: s)
  case Nil
  then show ?case by simp
next
  case (Cons x xs)
  have "snd (filterWith cb (x # xs) s) = snd (filterWith cb xs (snd (cb x s)))"
    by (simp add: case_prod_unfold Let_def)
  then show ?case
    using Cons assms(1) by simp
qed

lemma enemyVsPlayer_invincible:
  "pl_invincibility (player (snd hw)) > now \<Longrightarrow> enemyVsPlayer now aps e hw = hw"
  by (simp add: enemyVsPlayer_def Let_def case_prod_unfold)

lemma enemyBulletCallback_invincible:
  "pl_invincibility (player w) > now \<Longrightarrow> snd (enemyBulletCallback env now aps b w) = w"
  by (simp add: enemyBulletCallback_def enemyBulletResolve_def Let_def)

lemma enemyCallback_invincible:
  assumes "pl_invincibility (player w) > now"
  shows "player (snd (enemyCallback env now lvl aps e w)) = player w"
    and "lives (snd (enemyCallback env now lvl aps e w)) = lives w"
    and "activePowerUps (snd (enemyCallback env now lvl aps e w)) = activePowerUps w"
    and "gameState (snd (enemyCallback env now lvl aps e w)) = gameState w"
  using assms
  by (simp_all add: enemyCallback_def enemyResolve_world Let_def enemyVsPlayer_invincible)

subsection \<open>Invincibility\<close>

text \<open>
  C5: in a tick in which the player is invincible (\<open>now < invincible-until\<close>), neither
  the enemy-bullet pass nor the enemy pass (bullets against enemies, enemy contact)
  changes the lives, the ActivePowerUp entries (so no SHIELD entry is removed), the
  game state or the player's invincible-until timestamp, whatever overlaps the player.
\<close>

theorem invincible_player_untouched:
  assumes "now < pl_invincibility (player w)"
  shows "lives (updateEnemyBullets env now aps w) = lives w \<and>
         activePowerUps (updateEnemyBullets env now aps w) = activePowerUps w \<and>
         player (updateEnemyBullets env now aps w) = player w \<and>
         gameState (updateEnemyBullets env now aps w) = gameState w \<and>
         lives (updateEnemies env now lvl aps w) = lives w \<and>
         activePowerUps (updateEnemies env now lvl aps w) = activePowerUps w \<and>
         player (updateEnemies env now lvl aps w) = player w \<and>
         gameState (updateEnemies env now lvl aps w) = gameState w"
proof -
  let ?P = "\<lambda>s :: World. player s = player w \<and> lives s = lives w \<and>
                 activePowerUps s = activePowerUps w \<and> gameState s = gameState w"
  have bullets: "?P (snd (filterWith (enemyBulletCallback env now aps) bs w))" for bs
  proof (rule filterWith_invariant [where P = ?P])
    fix x s assume "?P s"
    then show "?P (snd (enemyBulletCallback env now aps x s))"
      using assms by (simp add: enemyBulletCallback_invincible)
  qed simp
  have enemies: "?P (snd (filterWith (enemyCallback env now lvl aps) es w))" for es
  proof (rule filterWith_invariant [where P = ?P])
    fix x s assume "?P s"
    then show "?P (snd (enemyCallback env now lvl aps x s))"
      using assms by (simp add: enemyCallback_invincible)
  qed simp
  show ?thesis
    using bullets [of "enemyBullets w"] enemies [of "enemies w"]
    by (simp add: update_passes)
qed


theorem invincible_player_untouched_witness:
  "1000 < pl_invincibility (player (underFireWorld 3000)) \<and>
   bulletHitsPlayer (Bullet_update incomingBullet) (player (underFireWorld 3000)) \<and>
   enemyHitsPlayer (Enemy_update (enemyAt BASIC 390 530)) (player (underFireWorld 3000)) \<and>
   lives (updateEnemyBullets (fieldEnv (\<lambda>k. 1 / 2) 1000) 1000 shieldAndTriple (underFireWorld 3000)) = 3 \<and>
   activePowerUps (updateEnemyBullets (fieldEnv (\<lambda>k. 1 / 2) 1000) 1000 shieldAndTriple (underFireWorld 3000))
     = shieldAndTriple \<and>
   lives (updateEnemies (fieldEnv (\<lambda>k. 1 / 2) 1000) 1000 1 shieldAndTriple (underFireWorld 3000)) = 3 \<and>
   activePowerUps (updateEnemies (fieldEnv (\<lambda>k. 1 / 2) 1000) 1000 1 shieldAndTriple (underFireWorld 3000))
     = shieldAndTriple \<and>
   pl_invincibility (player (updateEnemies (fieldEnv (\<lambda>k. 1 / 2) 1000) 1000 1 shieldAndTriple (underFireWorld 3000)))
     = 3000"
proof -
  have invincible: "1000 < pl_invincibility (player (underFireWorld 3000))"
    by (simp add: underFireWorld_def)
  show ?thesis
    using invincible invincible_player_untouched [OF invincible, of "fieldEnv (\<lambda>k. 1 / 2) 1000" shieldAndTriple 1]
    by (simp add: underFireWorld_def initialWorld_def bulletHitsPlayer_def enemyHitsPlayer_def
        incomingBullet_def new_Bullet_def Bullet_update_def Enemy_update_def enemyAt_def
        PLAYER_SIZE_def PLAYER_INITIAL_LIVES_def)
qed

subsection \<open>A shield absorbs an enemy bullet\<close>




lemma pickUp_score [simp]:
  "score (pickUp env p w) = score w"
  "enemiesKilled (pickUp env p w) = enemiesKilled w"
  "particles (pickUp env p w) = particles w"
  by (simp_all add: pickUp_def Date_now_def Let_def)

lemma late_passes_score [simp]:
  "score (updatePowerUps env w) = score w"
  "score (updateParticles w) = score w"
  "enemiesKilled (updatePowerUps env w) = enemiesKilled w"
  "enemiesKilled (updateParticles w) = enemiesKilled w"
  by (simp_all add: update_passes filterWith_preserves [where f = score]
      filterWith_preserves [where f = enemiesKilled]
      powerUpCallback_def powerUpResolve_def particleCallback_def Let_def)

lemma level_check_score [simp]:
  "score (checkLevelUp lvl w) = score w"
  "enemiesKilled (checkLevelUp lvl w) = enemiesKilled w"
  "score (checkSurvivor now w) = score w"
  "enemiesKilled (checkSurvivor now w) = enemiesKilled w"
  by (simp_all add: checkLevelUp_def checkSurvivor_def Let_def)

lemmas early_defs =
  handleInput_eq Date_now_def Math_random_def autoShoot_def
  hasTriple_def hasShield_def new_Bullet_def Bullet_update_def bulletInField_def
  bulletCallback_def updateBullets_def loseLife_def consumeShield_def bulletHitsPlayer_def
  enemyBulletResolve_def enemyBulletCallback_def updateEnemyBullets_def spawnEnemy_type_def
  spawnEnemy_def new_Enemy_def Enemy_update_def 
  maybeSpawnEnemy_def fireChance_def enemyFire_def bulletHitsEnemy_def forEachBullet.simps
  enemyHitsPlayer_def enemyVsPlayer_def enemyResolve_def enemyCallback_def updateEnemies_def
  PLAYER_SIZE_def PLAYER_SPEED_def PLAYER_INITIAL_LIVES_def INVINCIBILITY_DURATION_def
  BULLET_SPEED_def BULLET_SIZE_def POWERUP_SIZE_def POWERUP_DURATION_def
  POWERUP_SPAWN_CHANCE_def ENEMIES_PER_LEVEL_def Let_def


lemma filterWith_stateless:
  assumes "\<And>x s. cb x s = ((g x, keep (g x)), s)"
  shows "filterWith cb xs s = (filter keep (map g xs), s)"
  by (induction xs) (simp_all add: assms)

lemma updateParticles_particles:
  "particles (updateParticles w) = filter (\<lambda>p. pt_life p > 0) (map Particle_update (particles w))"
  by (simp add: update_passes
      filterWith_stateless [where g = Particle_update and keep = "\<lambda>p. pt_life p > 0"]
      particleCallback_def Let_def)

lemma updateBullets_bullets:
  "bullets (updateBullets env w) = filter (bulletInField env) (map Bullet_update (bullets w))"
  by (simp add: update_passes
      filterWith_stateless [where g = Bullet_update and keep = "bulletInField env"]
      bulletCallback_def Let_def)

lemma particleLives_updateParticles:
  "particleLives (updateParticles w) = filter (\<lambda>l. l > 0) (map (\<lambda>l. l - 0.02) (particleLives w))"
  by (simp add: particleLives_def updateParticles_particles filter_map comp_def Particle_update_def)

lemma particleLives_updates [simp]:
  "particleLives (w\<lparr>bullets := bs\<rparr>) = particleLives w"
  "particleLives (w\<lparr>enemyBullets := bs\<rparr>) = particleLives w"
  "particleLives (w\<lparr>enemies := es\<rparr>) = particleLives w"
  "particleLives (w\<lparr>powerUps := ps\<rparr>) = particleLives w"
  "particleLives (w\<lparr>player := p\<rparr>) = particleLives w"
  "particleLives (w\<lparr>score := sc\<rparr>) = particleLives w"
  "particleLives (w\<lparr>lives := l\<rparr>) = particleLives w"
  "particleLives (w\<lparr>enemiesKilled := n\<rparr>) = particleLives w"
  "particleLives (w\<lparr>particles := pts\<rparr>) = map pt_life pts"
  by (simp_all add: particleLives_def)

lemma particleLives_kill [simp]:
  "particleLives (pushParticle env e w) = particleLives w @ [1]"
  "particleLives (unlockAchievement i w) = particleLives w"
  "particleLives (spawnPowerUp env lvl w) = particleLives w"
  by (simp_all add: particleLives_def pushParticle_def new_Particle_def Math_random_def Let_def)

lemma particleLives_fold_pushParticle [simp]:
  "particleLives (fold (\<lambda>i. pushParticle env e) xs w) = particleLives w @ replicate (length xs) 1"
  by (induction xs arbitrary: w) (simp_all add: replicate_app_Cons_same)

lemma particleLives_killEffects [simp]:
  "particleLives (killEffects env lvl e w) = particleLives w @ replicate 10 1"
  by (simp add: killEffects_def Let_def)

lemma particleLives_late [simp]:
  "particleLives (updatePowerUps env w) = particleLives w"
  "particleLives (checkLevelUp lvl w) = particleLives w"
  "particleLives (checkSurvivor now w) = particleLives w"
  by (simp_all add: update_passes filterWith_preserves [where f = particles]
      powerUpCallback_def powerUpResolve_def checkLevelUp_def checkSurvivor_def
      particleLives_def Let_def)

lemma late_passes_enemies [simp]:
  "enemies (updatePowerUps env w) = enemies w"
  "enemies (updateParticles w) = enemies w"
  "enemies (checkSurvivor now w) = enemies w"
  by (simp_all add: update_passes filterWith_preserves [where f = enemies]
      powerUpCallback_def powerUpResolve_def particleCallback_def checkSurvivor_def Let_def)

lemma checkLevelUp_incomplete:
  "\<not> levelComplete lvl w \<Longrightarrow> checkLevelUp lvl w = w"
  by (simp add: checkLevelUp_def)

subsection \<open>Several bullets on one enemy\<close>

text \<open>
  C1 (the code departs from it): the player fires a triple shot right below a basic
  enemy with health 1 worth 100 points. After their move all three bullets lie inside
  the enemy. \<open>forEach\<close> hits with the first bullet (health 0, kill effects) and removes it
  with \<open>splice\<close>, which shifts the second bullet to the visited index, so the next index
  holds the third bullet: it hits as well (health -1) and, \<open>e.health <= 0\<close> holding
  again, the kill effects run a second time. One enemy is gone, the score has grown by
  200, the kill counter by 2, and 20 particles have been emitted.
\<close>

theorem triple_shot_scores_one_enemy_twice:
  "enemies pointBlankWorld = [enemyAt BASIC 385 498] \<and>
   e_health (enemyAt BASIC 385 498) = 1 \<and>
   e_points (enemyAt BASIC 385 498) = 100 \<and>
   score pointBlankWorld = 0 \<and>
   enemiesKilled pointBlankWorld = 0 \<and>
   particles pointBlankWorld = [] \<and>
   enemies (tick (fieldEnv (\<lambda>k. 1 / 2) 1000) pointBlankWorld) = [] \<and>
   score (tick (fieldEnv (\<lambda>k. 1 / 2) 1000) pointBlankWorld) = 200 \<and>
   enemiesKilled (tick (fieldEnv (\<lambda>k. 1 / 2) 1000) pointBlankWorld) = 2 \<and>
   particleLives (tick (fieldEnv (\<lambda>k. 1 / 2) 1000) pointBlankWorld) = replicate 20 0.98"
proof -
  let ?E = "fieldEnv (\<lambda>k. 1 / 2) 1000"
  have before: "enemies pointBlankWorld = [enemyAt BASIC 385 498]"
    "e_health (enemyAt BASIC 385 498) = 1" "e_points (enemyAt BASIC 385 498) = 100"
    "score pointBlankWorld = 0" "enemiesKilled pointBlankWorld = 0" "particles pointBlankWorld = []"
    by (simp_all add: pointBlankWorld_def initialWorld_def enemyAt_def)
  have left: "enemies (snd (beforeLevelCheck ?E pointBlankWorld)) = []"
    by (simp add: beforeLevelCheck_def early_defs pointBlankWorld_def initialWorld_def
        fieldEnv_def enemyAt_def)
  have spawned: "enemiesSpawnedInLevel (snd (beforeLevelCheck ?E pointBlankWorld)) = 1"
    by (simp add: beforeLevelCheck_def early_defs pointBlankWorld_def initialWorld_def
        fieldEnv_def enemyAt_def update_passes
        filterWith_preserves [where f = enemiesSpawnedInLevel]
        powerUpCallback_def powerUpResolve_def particleCallback_def)
  have "level pointBlankWorld = 1"
    by (simp add: pointBlankWorld_def initialWorld_def)
  then have "\<not> levelComplete (level pointBlankWorld) (snd (beforeLevelCheck ?E pointBlankWorld))"
    by (simp add: levelComplete_def spawned ENEMIES_PER_LEVEL_def)
  then have gone: "enemies (tick ?E pointBlankWorld) = []"
    by (simp add: tick_unfold checkLevelUp_incomplete left)
  have points: "score (tick ?E pointBlankWorld) = 200"
    by (simp add: tick_unfold beforeLevelCheck_def early_defs pointBlankWorld_def
        initialWorld_def fieldEnv_def enemyAt_def)
  have kills: "enemiesKilled (tick ?E pointBlankWorld) = 2"
    by (simp add: tick_unfold beforeLevelCheck_def early_defs pointBlankWorld_def
        initialWorld_def fieldEnv_def enemyAt_def)
  have sparks: "particleLives (tick ?E pointBlankWorld) = replicate 20 0.98"
    by (simp add: tick_unfold beforeLevelCheck_def particleLives_updateParticles early_defs
        pointBlankWorld_def initialWorld_def fieldEnv_def enemyAt_def flip: replicate_add)
       (simp add: particleLives_def)
  show ?thesis
    using before gone points kills sparks by simp
qed

lemma filterWith_map:
  "filterWith (\<lambda>x. cb (g x)) xs s = filterWith cb (map g xs) s"
  by (induction xs arbitrary: s) simp_all

lemma filterWith_commute:
  assumes "\<And>x s. cb x (u s) = (fst (cb x s), u (snd (cb x s)))"
  shows "filterWith cb xs (u s) = (fst (filterWith cb xs s), u (snd (filterWith cb xs s)))"
  by (induction xs arbitrary: s) (simp_all add: assms case_prod_unfold Let_def)

lemma enemies_update_basic:
  "Math_random env (w\<lparr>enemies := X\<rparr>) = (fst (Math_random env w), (snd (Math_random env w))\<lparr>enemies := X\<rparr>)"
  "unlockAchievement i (w\<lparr>enemies := X\<rparr>) = (unlockAchievement i w)\<lparr>enemies := X\<rparr>"
  "pushParticle env e (w\<lparr>enemies := X\<rparr>) = (pushParticle env e w)\<lparr>enemies := X\<rparr>"
  "spawnPowerUp env lvl (w\<lparr>enemies := X\<rparr>) = (spawnPowerUp env lvl w)\<lparr>enemies := X\<rparr>"
  "enemyFire env lvl e (w\<lparr>enemies := X\<rparr>) = (enemyFire env lvl e w)\<lparr>enemies := X\<rparr>"
  "loseLife (w\<lparr>enemies := X\<rparr>) = (loseLife w)\<lparr>enemies := X\<rparr>"
  "consumeShield (w\<lparr>enemies := X\<rparr>) = (consumeShield w)\<lparr>enemies := X\<rparr>"
  by (simp_all add: Math_random_def unlockAchievement_def pushParticle_def new_Particle_def
      spawnPowerUp_def new_PowerUp_def enemyFire_def loseLife_def consumeShield_def Let_def
      split: option.splits)

lemma enemies_update_fold:
  "fold (\<lambda>i. pushParticle env e) xs (w\<lparr>enemies := X\<rparr>) =
   (fold (\<lambda>i. pushParticle env e) xs w)\<lparr>enemies := X\<rparr>"
  by (induction xs arbitrary: w) (simp_all add: enemies_update_basic)

lemma enemies_update_killEffects:
  "killEffects env lvl e (w\<lparr>enemies := X\<rparr>) = (killEffects env lvl e w)\<lparr>enemies := X\<rparr>"
proof -
  have 1: "w\<lparr>enemies := X, score := a, enemiesKilled := b\<rparr> = w\<lparr>score := a, enemiesKilled := b, enemies := X\<rparr>" for a b
    by simp
  show ?thesis
    unfolding killEffects_def Let_def
    by (simp add: 1 enemies_update_fold enemies_update_basic del: World.update_convs)
qed


lemma enemies_update_forEachBullet:
  "forEachBullet env lvl k len (fst s, fst (snd s), (snd (snd s))\<lparr>enemies := X\<rparr>) =
     (fst (forEachBullet env lvl k len s), fst (snd (forEachBullet env lvl k len s)),
      (snd (snd (forEachBullet env lvl k len s)))\<lparr>enemies := X\<rparr>)"
proof (induction env lvl k len s rule: forEachBullet.induct)
  case (1 env lvl bIdx len e hit w)
  let ?e1 = "e\<lparr>e_health := e_health e - 1\<rparr>"
  let ?w1 = "w\<lparr>bullets := take bIdx (bullets w) @ drop (Suc bIdx) (bullets w)\<rparr>"
  have swap: "w\<lparr>enemies := X, bullets := bs\<rparr> = w\<lparr>bullets := bs\<rparr>\<lparr>enemies := X\<rparr>" for bs
    by simp
  consider (past) "\<not> bIdx < len"
    | (absent) "bIdx < len" "\<not> bIdx < length (bullets w)"
    | (miss) "bIdx < len" "bIdx < length (bullets w)" "\<not> bulletHitsEnemy (bullets w ! bIdx) e"
    | (kill) "bIdx < len" "bIdx < length (bullets w)" "bulletHitsEnemy (bullets w ! bIdx) e"
             "e_health ?e1 \<le> 0"
    | (wound) "bIdx < len" "bIdx < length (bullets w)" "bulletHitsEnemy (bullets w ! bIdx) e"
             "\<not> e_health ?e1 \<le> 0"
    by blast
  then show ?case
  proof cases
    case past
    then show ?thesis
      by (simp add: forEachBullet.simps)
  next
    case absent
    have L: "forEachBullet env lvl bIdx len (e, hit, w\<lparr>enemies := X\<rparr>) =
             forEachBullet env lvl (Suc bIdx) len (e, hit, w\<lparr>enemies := X\<rparr>)"
      by (subst forEachBullet.simps) (use absent in simp)
    have R: "forEachBullet env lvl bIdx len (e, hit, w) =
             forEachBullet env lvl (Suc bIdx) len (e, hit, w)"
      by (subst forEachBullet.simps) (use absent in simp)
    show ?thesis
      using "1.IH"(4) [OF absent] by (simp add: L R)
  next
    case miss
    have L: "forEachBullet env lvl bIdx len (e, hit, w\<lparr>enemies := X\<rparr>) =
             forEachBullet env lvl (Suc bIdx) len (e, hit, w\<lparr>enemies := X\<rparr>)"
      by (subst forEachBullet.simps) (use miss in simp)
    have R: "forEachBullet env lvl bIdx len (e, hit, w) =
             forEachBullet env lvl (Suc bIdx) len (e, hit, w)"
      by (subst forEachBullet.simps) (use miss in simp)
    show ?thesis
      using "1.IH"(3) [OF miss(1,2) refl miss(3)] by (simp add: L R)
  next
    case kill
    have L: "forEachBullet env lvl bIdx len (e, hit, w\<lparr>enemies := X\<rparr>) =
             forEachBullet env lvl (Suc bIdx) len (?e1, True, (killEffects env lvl ?e1 ?w1)\<lparr>enemies := X\<rparr>)"
      by (subst forEachBullet.simps)
         (use kill in \<open>simp add: Let_def swap enemies_update_killEffects del: World.update_convs\<close>)
    have R: "forEachBullet env lvl bIdx len (e, hit, w) =
             forEachBullet env lvl (Suc bIdx) len (?e1, True, killEffects env lvl ?e1 ?w1)"
      by (subst forEachBullet.simps) (use kill in \<open>simp add: Let_def\<close>)
    show ?thesis
      using "1.IH"(1) [OF kill(1,2) refl kill(3) refl refl kill(4)] by (simp add: L R)
  next
    case wound
    have L: "forEachBullet env lvl bIdx len (e, hit, w\<lparr>enemies := X\<rparr>) =
             forEachBullet env lvl (Suc bIdx) len (?e1, hit, ?w1\<lparr>enemies := X\<rparr>)"
      by (subst forEachBullet.simps) (use wound in \<open>simp add: Let_def swap\<close>)
    have R: "forEachBullet env lvl bIdx len (e, hit, w) =
             forEachBullet env lvl (Suc bIdx) len (?e1, hit, ?w1)"
      by (subst forEachBullet.simps) (use wound in \<open>simp add: Let_def\<close>)
    show ?thesis
      using "1.IH"(2) [OF wound(1,2) refl wound(3) refl refl wound(4)] by (simp add: L R)
  qed
qed

lemma enemies_update_enemyVsPlayer:
  "enemyVsPlayer now aps e (h, w\<lparr>enemies := X\<rparr>) =
     (fst (enemyVsPlayer now aps e (h, w)), (snd (enemyVsPlayer now aps e (h, w)))\<lparr>enemies := X\<rparr>)"
  by (simp add: enemyVsPlayer_def Let_def loseLife_def consumeShield_def)

lemma enemies_update_enemyResolve:
  "enemyResolve env now lvl aps e (w\<lparr>enemies := X\<rparr>) =
     (fst (enemyResolve env now lvl aps e w), (snd (enemyResolve env now lvl aps e w))\<lparr>enemies := X\<rparr>)"
proof -
  have loop: "forEachBullet env lvl k len (e, h, v\<lparr>enemies := X\<rparr>) =
     (fst (forEachBullet env lvl k len (e, h, v)), fst (snd (forEachBullet env lvl k len (e, h, v))),
      (snd (snd (forEachBullet env lvl k len (e, h, v))))\<lparr>enemies := X\<rparr>)" for k len h v
    using enemies_update_forEachBullet [of env lvl k len "(e, h, v)" X] by simp
  have contact: "enemyVsPlayer now aps e' (h, v\<lparr>enemies := X\<rparr>) =
     (fst (enemyVsPlayer now aps e' (h, v)), (snd (enemyVsPlayer now aps e' (h, v)))\<lparr>enemies := X\<rparr>)" for e' h v
    by (rule enemies_update_enemyVsPlayer)
  show ?thesis
    by (simp add: enemyResolve_def Let_def case_prod_unfold enemies_update_basic loop contact)
qed

lemma enemyBullets_update_enemyBulletResolve:
  "enemyBulletResolve env now aps b (w\<lparr>enemyBullets := X\<rparr>) =
     (fst (enemyBulletResolve env now aps b w),
      (snd (enemyBulletResolve env now aps b w))\<lparr>enemyBullets := X\<rparr>)"
  by (simp add: enemyBulletResolve_def Let_def loseLife_def consumeShield_def)

lemma powerUps_update_powerUpResolve:
  "powerUpResolve env p (w\<lparr>powerUps := X\<rparr>) =
     (fst (powerUpResolve env p w), (snd (powerUpResolve env p w))\<lparr>powerUps := X\<rparr>)"
  by (simp add: powerUpResolve_def pickUp_def Date_now_def unlockAchievement_def Let_def
      split: option.splits)

text \<open>Each pass of the loop is the motion of its collection followed by its resolution.\<close>

lemma updateBullets_staged:
  "updateBullets env w = moveBullets env w"
  by (simp add: update_passes moveBullets_def
      filterWith_stateless [where g = Bullet_update and keep = "bulletInField env"]
      bulletCallback_def Let_def)

lemma updateParticles_staged:
  "updateParticles w = moveParticles w"
  by (simp add: update_passes moveParticles_def
      filterWith_stateless [where g = Particle_update and keep = "\<lambda>p. pt_life p > 0"]
      particleCallback_def Let_def)

lemma updateEnemyBullets_staged:
  "updateEnemyBullets env now aps w = resolveEnemyBullets env now aps (moveEnemyBullets w)"
proof -
  have "filterWith (enemyBulletCallback env now aps) (enemyBullets w) w =
        filterWith (enemyBulletResolve env now aps) (map Bullet_update (enemyBullets w)) w"
    using filterWith_map [of "enemyBulletResolve env now aps" Bullet_update "enemyBullets w" w]
    by (simp add: enemyBulletCallback_def [abs_def])
  then show ?thesis
    by (simp add: update_passes resolveEnemyBullets_def moveEnemyBullets_def case_prod_unfold
        filterWith_commute [where u = "\<lambda>s. s\<lparr>enemyBullets := X\<rparr>"
          and cb = "enemyBulletResolve env now aps" for X]
        enemyBullets_update_enemyBulletResolve)
qed

lemma updateEnemies_staged:
  "updateEnemies env now lvl aps w = resolveEnemies env now lvl aps (moveEnemies w)"
proof -
  have "filterWith (enemyCallback env now lvl aps) (enemies w) w =
        filterWith (enemyResolve env now lvl aps) (map Enemy_update (enemies w)) w"
    using filterWith_map [of "enemyResolve env now lvl aps" Enemy_update "enemies w" w]
    by (simp add: enemyCallback_def [abs_def])
  then show ?thesis
    by (simp add: update_passes resolveEnemies_def moveEnemies_def case_prod_unfold
        filterWith_commute [where u = "\<lambda>s. s\<lparr>enemies := X\<rparr>"
          and cb = "enemyResolve env now lvl aps" for X]
        enemies_update_enemyResolve)
qed

lemma updatePowerUps_staged:
  "updatePowerUps env w = resolvePowerUps env (movePowerUps w)"
proof -
  have "filterWith (powerUpCallback env) (powerUps w) w =
        filterWith (powerUpResolve env) (map PowerUp_update (powerUps w)) w"
    using filterWith_map [of "powerUpResolve env" PowerUp_update "powerUps w" w]
    by (simp add: powerUpCallback_def [abs_def])
  then show ?thesis
    by (simp add: update_passes resolvePowerUps_def movePowerUps_def case_prod_unfold
        filterWith_commute [where u = "\<lambda>s. s\<lparr>powerUps := X\<rparr>"
          and cb = "powerUpResolve env" for X]
        powerUps_update_powerUpResolve)
qed

lemma particleLives_resolvePowerUps [simp]:
  "particleLives (resolvePowerUps env w) = particleLives w"
  by (simp add: resolvePowerUps_def case_prod_unfold particleLives_def Let_def
      filterWith_preserves [where f = particles] powerUpResolve_def)

subsection \<open>The order of the stages of a tick\<close>

text \<open>
  C4, as stated, fails: motion updates are not all done before the first collision check.
  The particle pass runs after the enemy pass, so the ten particles that a kill emits
  during collision resolution are moved and faded in that same tick (life 0.98 after
  the tick); in the staged composition, where all motion precedes all collision
  resolution, they are not (life 1).
\<close>

theorem tick_moves_what_collisions_create:
  "particles singleShotWorld = [] \<and>
   particleLives (tick (fieldEnv (\<lambda>k. 1 / 2) 1000) singleShotWorld) = replicate 10 0.98 \<and>
   particleLives (tick_staged (fieldEnv (\<lambda>k. 1 / 2) 1000) singleShotWorld) = replicate 10 1 \<and>
   tick (fieldEnv (\<lambda>k. 1 / 2) 1000) singleShotWorld \<noteq>
     tick_staged (fieldEnv (\<lambda>k. 1 / 2) 1000) singleShotWorld"
proof -
  let ?E = "fieldEnv (\<lambda>k. 1 / 2) 1000"
  have none: "particles singleShotWorld = []"
    by (simp add: singleShotWorld_def pointBlankWorld_def initialWorld_def)
  have code: "particleLives (tick ?E singleShotWorld) = replicate 10 0.98"
    by (simp add: tick_unfold beforeLevelCheck_def particleLives_updateParticles early_defs
        singleShotWorld_def pointBlankWorld_def initialWorld_def fieldEnv_def enemyAt_def)
       (simp add: particleLives_def)
  have staged: "particleLives (tick_staged ?E singleShotWorld) = replicate 10 1"
    by (simp add: tick_staged_def moveBullets_def moveEnemyBullets_def moveEnemies_def
        movePowerUps_def moveParticles_def resolveEnemyBullets_def resolveEnemies_def
        early_defs singleShotWorld_def pointBlankWorld_def initialWorld_def fieldEnv_def
        enemyAt_def)
       (simp add: particleLives_def)
  have "particleLives (tick ?E singleShotWorld) \<noteq> particleLives (tick_staged ?E singleShotWorld)"
    unfolding code staged by simp
  then have "tick ?E singleShotWorld \<noteq> tick_staged ?E singleShotWorld"
    by auto
  then show ?thesis
    using none code staged by simp
qed

text \<open>
  C4, amended: the tick is equivalent to the composition, pass by pass, of: the motion
  of the player bullets; the motion of all enemy bullets, then enemy-bullet-vs-player;
  the enemy spawn; the motion of all enemies, then per enemy its shot,
  player-bullet-vs-enemy and enemy-vs-player; the motion of all power-ups (those a kill
  has just spawned included), then player-vs-powerup; the motion of all particles (those
  a kill has just emitted included); and only then the level-progression check. So
  within each pass the motion updates precede the collision checks, the collision passes
  keep their fixed order and all of them precede the level check, but the motion of
  enemies, power-ups and particles comes after earlier collision resolution.
\<close>

theorem tick_pass_by_pass:
  "tick env w = tick_by_pass env w"
  by (simp add: tick_def beforeLevelCheck_def tick_by_pass_def Let_def case_prod_unfold
      updateBullets_staged updateEnemyBullets_staged updateEnemies_staged
      updatePowerUps_staged updateParticles_staged)

lemma forEachBullet_invariant:
  assumes "\<And>env lvl e w. P w \<Longrightarrow> P (killEffects env lvl e w)"
      and "\<And>w bs. P w \<Longrightarrow> P (w\<lparr>bullets := bs\<rparr>)"
  shows "P (snd (snd s)) \<Longrightarrow> P (snd (snd (forEachBullet env lvl k len s)))"
proof (induction env lvl k len s rule: forEachBullet.induct)
  case (1 env lvl bIdx len e hit w)
  show ?case
    by (subst forEachBullet.simps) (use 1 assms in \<open>simp add: Let_def\<close>)
qed

lemma randomCalls_grow:
  "randomCalls w \<le> randomCalls (spawnPowerUp env lvl w)"
  "randomCalls w \<le> randomCalls (killEffects env lvl e w)"
  "randomCalls (enemyFire env lvl e w) = randomCalls w + (if 10 \<le> lvl then 1 else 0)"
  "randomCalls (snd (enemyVsPlayer now aps e hw)) = randomCalls (snd hw)"
proof -
  show sp: "randomCalls w \<le> randomCalls (spawnPowerUp env lvl w)" for w
    by (simp add: spawnPowerUp_def new_PowerUp_def Math_random_def Let_def)
  have "randomCalls w \<le> randomCalls (fold (\<lambda>i. pushParticle env e) [0..<10]
          (w\<lparr>score := score w + e_points e, enemiesKilled := enemiesKilled w + 1\<rparr>))"
    by simp
  then show "randomCalls w \<le> randomCalls (killEffects env lvl e w)"
    unfolding killEffects_def Let_def
    by (intro order_trans [OF _ sp]) simp
  show "randomCalls (enemyFire env lvl e w) = randomCalls w + (if 10 \<le> lvl then 1 else 0)"
    by (simp add: enemyFire_def Math_random_def Let_def)
  show "randomCalls (snd (enemyVsPlayer now aps e hw)) = randomCalls (snd hw)"
    by (simp add: enemyVsPlayer_def consumeShield_def loseLife_def Let_def case_prod_unfold)
qed

lemma randomCalls_forEachBullet:
  "randomCalls (snd (snd s)) \<le> randomCalls (snd (snd (forEachBullet env lvl k len s)))"
proof -
  have "n \<le> randomCalls (snd (snd s)) \<Longrightarrow> n \<le> randomCalls (snd (snd (forEachBullet env lvl k len s)))" for n
    by (rule forEachBullet_invariant [where P = "\<lambda>w. n \<le> randomCalls w"])
       (auto intro: order_trans randomCalls_grow(2))
  then show ?thesis by blast
qed

lemma randomCalls_enemyCallback:
  "randomCalls w + (if 10 \<le> lvl then 1 else 0) \<le> randomCalls (snd (enemyCallback env now lvl aps e w))"
proof -
  let ?w1 = "enemyFire env lvl (Enemy_update e) w"
  have "randomCalls ?w1 \<le> randomCalls (snd (snd (forEachBullet env lvl 0 (length (bullets ?w1))
          (Enemy_update e, False, ?w1))))"
    using randomCalls_forEachBullet [of "(Enemy_update e, False, ?w1)"] by simp
  then show ?thesis
    by (simp add: enemyCallback_def enemyResolve_world Let_def randomCalls_grow)
qed


lemma visitDraws_props:
  "length (visitDraws env now lvl aps es w) = length es"
  "\<forall>k \<in> set (visitDraws env now lvl aps es w). randomCalls w \<le> k"
proof -
  show "length (visitDraws env now lvl aps es w) = length es"
    by (induction es arbitrary: w) simp_all
  show "\<forall>k \<in> set (visitDraws env now lvl aps es w). randomCalls w \<le> k"
  proof (induction es arbitrary: w)
    case Nil
    show ?case by simp
  next
    case (Cons e es)
    have "randomCalls w \<le> randomCalls (snd (enemyCallback env now lvl aps e w))"
      using randomCalls_enemyCallback [of w lvl env now aps e] by (simp split: if_splits)
    then show ?case
      using Cons [of "snd (enemyCallback env now lvl aps e w)"] by fastforce
  qed
qed

lemma visitDraws_increasing:
  "10 \<le> lvl \<Longrightarrow> sorted_wrt (<) (visitDraws env now lvl aps es w)"
proof (induction es arbitrary: w)
  case Nil
  show ?case by simp
next
  case (Cons e es)
  have "randomCalls w < randomCalls (snd (enemyCallback env now lvl aps e w))"
    using randomCalls_enemyCallback [of w lvl env now aps e] Cons.prems by simp
  then show ?case
    using Cons visitDraws_props(2) [of env now lvl aps es "snd (enemyCallback env now lvl aps e w)"]
    by fastforce
qed

text \<open>The enemy bullets a run of the enemy filter leaves: those before it and the shots fired.\<close>

lemma filterWith_enemyCallback_enemyBullets:
  "enemyBullets (snd (filterWith (enemyCallback env now lvl aps) es w)) =
     enemyBullets w @
       concat (map2 (\<lambda>e k. if 10 \<le> lvl \<and> randomValues env k < fireChance lvl then [shotOf e] else [])
                 es (visitDraws env now lvl aps es w))"
proof (induction es arbitrary: w)
  case Nil
  show ?case by simp
next
  case (Cons e es)
  let ?w1 = "snd (enemyCallback env now lvl aps e w)"
  have w1: "enemyBullets ?w1 =
      enemyBullets w @ (if 10 \<le> lvl \<and> randomValues env (randomCalls w) < fireChance lvl then [shotOf e] else [])"
    by (simp add: enemyCallback_def enemyFire_enemyBullets Enemy_update_def shotOf_def)
  have step: "snd (filterWith (enemyCallback env now lvl aps) (e # es) w) =
              snd (filterWith (enemyCallback env now lvl aps) es ?w1)"
    by (simp add: Let_def case_prod_unfold)
  show ?case
    unfolding step Cons.IH [of ?w1] w1 by simp
qed

subsection \<open>Enemy firing\<close>

text \<open>
  C9: enemies never fire while \<open>level < 10\<close>: the enemy pass leaves the enemy bullets as
  they are. When \<open>level \<ge> 10\<close>, every enemy the pass visits draws its own number from
  \<open>Math.random\<close> (the draws of the enemies are distinct calls, in the order of the
  enemies) and fires exactly when that draw is below
  \<open>min(0.05, 0.005 + (level - 10) * 0.002)\<close>, a threshold that lies in (0, 0.05], so with
  a uniform draw it fires with that probability. The enemy bullets after the pass are
  those before it followed, enemy by enemy, by a single bullet with velocity (0, 4) at
  the bottom centre of each enemy that fired (as moved in this tick).
\<close>

theorem enemy_firing:
  "(lvl < 10 \<longrightarrow> enemyBullets (updateEnemies env now lvl aps w) = enemyBullets w) \<and>
   (10 \<le> lvl \<longrightarrow>
      fireChance lvl = min 0.05 (0.005 + (real_of_int lvl - 10) * 0.002) \<and>
      0 < fireChance lvl \<and> fireChance lvl \<le> 0.05 \<and>
      enemyBullets (updateEnemies env now lvl aps w) =
        enemyBullets w @
          concat (map2 (\<lambda>e k. if randomValues env k < fireChance lvl then [shotOf e] else [])
                    (enemies w) (visitDraws env now lvl aps (enemies w) w)) \<and>
      length (visitDraws env now lvl aps (enemies w) w) = length (enemies w) \<and>
      sorted_wrt (<) (visitDraws env now lvl aps (enemies w) w) \<and>
      (\<forall>k \<in> set (visitDraws env now lvl aps (enemies w) w). randomCalls w \<le> k) \<and>
      shotOf e = new_Bullet (e_x e + e_size e / 2) (e_y (Enemy_update e) + e_size e) 0 4 ''#ef4444'' True)"
proof -
  have pass: "enemyBullets (updateEnemies env now lvl aps w) =
      enemyBullets w @
        concat (map2 (\<lambda>e k. if 10 \<le> lvl \<and> randomValues env k < fireChance lvl then [shotOf e] else [])
                  (enemies w) (visitDraws env now lvl aps (enemies w) w))"
    using filterWith_enemyCallback_enemyBullets [of env now lvl aps "enemies w" w]
    by (simp add: update_passes)
  have quiet: "lvl < 10 \<Longrightarrow> enemyBullets (updateEnemies env now lvl aps w) = enemyBullets w"
    unfolding pass by simp
  have loud: "10 \<le> lvl \<Longrightarrow> enemyBullets (updateEnemies env now lvl aps w) =
      enemyBullets w @
        concat (map2 (\<lambda>e k. if randomValues env k < fireChance lvl then [shotOf e] else [])
                  (enemies w) (visitDraws env now lvl aps (enemies w) w))"
    unfolding pass by simp
  have chance: "fireChance lvl = min 0.05 (0.005 + (real_of_int lvl - 10) * 0.002)"
    by (simp add: fireChance_def)
  have range: "10 \<le> lvl \<Longrightarrow> 0 < fireChance lvl \<and> fireChance lvl \<le> 0.05"
    using fireChance_range [of lvl] by simp
  have shot: "shotOf e = new_Bullet (e_x e + e_size e / 2) (e_y (Enemy_update e) + e_size e) 0 4 ''#ef4444'' True"
    by (simp add: shotOf_def Enemy_update_def)
  show ?thesis
    using quiet loud chance range shot visitDraws_props [of env now lvl aps "enemies w" w]
      visitDraws_increasing [of lvl env now aps "enemies w" w]
    by blast
qed

theorem enemy_firing_witness:
  "(1 :: int) < 10 \<and>
   enemyBullets (updateEnemies (fieldEnv draws_0_05 1000) 1000 1 [] twoEnemyWorld) = [] \<and>
   (10 :: int) \<le> 12 \<and>
   visitDraws (fieldEnv draws_0_05 1000) 1000 12 [] (enemies twoEnemyWorld) twoEnemyWorld = [0, 1] \<and>
   enemyBullets (updateEnemies (fieldEnv draws_0_05 1000) 1000 12 [] twoEnemyWorld) =
     [new_Bullet 117.5 87 0 4 ''#ef4444'' True] \<and>
   enemyBullets (updateEnemies (fieldEnv (\<lambda>k. 0) 1000) 1000 12 [] twoEnemyWorld) =
     [new_Bullet 117.5 87 0 4 ''#ef4444'' True, new_Bullet 317.5 117 0 4 ''#ef4444'' True]"
proof -
  let ?E = "fieldEnv draws_0_05 1000" and ?Z = "fieldEnv (\<lambda>k. 0) 1000"
  have draws: "visitDraws E 1000 12 [] (enemies twoEnemyWorld) twoEnemyWorld = [0, 1]" for E
    by (simp add: early_defs twoEnemyWorld_def initialWorld_def enemyAt_def)
  have none: "enemyBullets twoEnemyWorld = []"
    by (simp add: twoEnemyWorld_def initialWorld_def)
  have quiet: "enemyBullets (updateEnemies ?E 1000 1 [] twoEnemyWorld) = []"
    using enemy_firing [of 1 ?E 1000 "[]" twoEnemyWorld] by (simp add: none)
  have "enemyBullets (updateEnemies ?E 1000 12 [] twoEnemyWorld) =
        enemyBullets twoEnemyWorld @
          concat (map2 (\<lambda>e k. if randomValues ?E k < fireChance 12 then [shotOf e] else [])
                    (enemies twoEnemyWorld) (visitDraws ?E 1000 12 [] (enemies twoEnemyWorld) twoEnemyWorld))"
    using enemy_firing [of 12 ?E 1000 "[]" twoEnemyWorld] by simp
  then have one: "enemyBullets (updateEnemies ?E 1000 12 [] twoEnemyWorld) =
                  [new_Bullet 117.5 87 0 4 ''#ef4444'' True]"
    unfolding draws none
    by (simp add: fireChance_def fieldEnv_def draws_0_05_def twoEnemyWorld_def initialWorld_def
        enemyAt_def shotOf_def)
  have "enemyBullets (updateEnemies ?Z 1000 12 [] twoEnemyWorld) =
        enemyBullets twoEnemyWorld @
          concat (map2 (\<lambda>e k. if randomValues ?Z k < fireChance 12 then [shotOf e] else [])
                    (enemies twoEnemyWorld) (visitDraws ?Z 1000 12 [] (enemies twoEnemyWorld) twoEnemyWorld))"
    using enemy_firing [of 12 ?Z 1000 "[]" twoEnemyWorld] by simp
  then have two: "enemyBullets (updateEnemies ?Z 1000 12 [] twoEnemyWorld) =
        [new_Bullet 117.5 87 0 4 ''#ef4444'' True, new_Bullet 317.5 117 0 4 ''#ef4444'' True]"
    unfolding draws none
    by (simp add: fireChance_def fieldEnv_def twoEnemyWorld_def initialWorld_def
        enemyAt_def shotOf_def)
  show ?thesis
    using quiet one two draws by simp
qed


subsection \<open>Picking up a timed power-up\<close>

lemma activate_one_entry:
  "length (filter (\<lambda>a. ap_type a = ty) (activate ty t prev)) = 1"
  "\<forall>a \<in> set (activate ty t prev). ap_type a = ty \<longrightarrow> ap_endTime a = t + POWERUP_DURATION"
  "filter (\<lambda>a. ap_type a \<noteq> ty) (activate ty t prev) = filter (\<lambda>a. ap_type a \<noteq> ty) prev"
  by (auto simp add: activate_def filter_empty_conv)

lemma pickUp_activePowerUps:
  "pu_type p \<noteq> EXTRA_LIFE \<Longrightarrow>
   activePowerUps (pickUp env p w) =
     activate (pu_type p) (dateNowValues env (dateNowCalls w)) (activePowerUps w)"
  by (simp add: pickUp_def Date_now_def Let_def)

text \<open>
  The loop keeps \<open>entriesFromClock\<close>: the entries are only ever filtered or replaced by
  one made from the current call of \<open>Date.now\<close>, and calls are only ever added.
\<close>

lemma entriesFromClock_updates [simp]:
  "entriesFromClock env (w\<lparr>bullets := bs\<rparr>) = entriesFromClock env w"
  "entriesFromClock env (w\<lparr>enemyBullets := bs\<rparr>) = entriesFromClock env w"
  "entriesFromClock env (w\<lparr>enemies := es\<rparr>) = entriesFromClock env w"
  "entriesFromClock env (w\<lparr>powerUps := ps\<rparr>) = entriesFromClock env w"
  "entriesFromClock env (w\<lparr>particles := pts\<rparr>) = entriesFromClock env w"
  "entriesFromClock env (w\<lparr>player := p\<rparr>) = entriesFromClock env w"
  "entriesFromClock env (w\<lparr>score := sc\<rparr>) = entriesFromClock env w"
  "entriesFromClock env (w\<lparr>lives := l\<rparr>) = entriesFromClock env w"
  "entriesFromClock env (w\<lparr>level := lv\<rparr>) = entriesFromClock env w"
  "entriesFromClock env (w\<lparr>gameState := g\<rparr>) = entriesFromClock env w"
  "entriesFromClock env (w\<lparr>lastShot := t\<rparr>) = entriesFromClock env w"
  "entriesFromClock env (w\<lparr>enemiesKilled := n\<rparr>) = entriesFromClock env w"
  "entriesFromClock env (w\<lparr>powerUpsPicked := n\<rparr>) = entriesFromClock env w"
  "entriesFromClock env (w\<lparr>enemiesSpawnedInLevel := n\<rparr>) = entriesFromClock env w"
  "entriesFromClock env (w\<lparr>achievements := as\<rparr>) = entriesFromClock env w"
  "entriesFromClock env (w\<lparr>randomCalls := k\<rparr>) = entriesFromClock env w"
  by (simp_all add: entriesFromClock_def)

lemma entriesFromClock_basic [simp]:
  "entriesFromClock env (snd (Math_random env' w)) = entriesFromClock env w"
  "entriesFromClock env (unlockAchievement i w) = entriesFromClock env w"
  "entriesFromClock env (pushParticle env' e w) = entriesFromClock env w"
  "entriesFromClock env (spawnPowerUp env' lvl w) = entriesFromClock env w"
  "entriesFromClock env (enemyFire env' lvl e w) = entriesFromClock env w"
  "entriesFromClock env (loseLife w) = entriesFromClock env w"
  "entriesFromClock env (autoShoot now aps w) = entriesFromClock env w"
  "entriesFromClock env (spawnEnemy env' lvl w) = entriesFromClock env w"
  "entriesFromClock env (maybeSpawnEnemy env' lvl w) = entriesFromClock env w"
  "entriesFromClock env (checkSurvivor now w) = entriesFromClock env w"
  "entriesFromClock env (checkLevelUp lvl w) = entriesFromClock env w"
  by (simp_all add: Math_random_def unlockAchievement_def pushParticle_def new_Particle_def
      spawnPowerUp_def new_PowerUp_def enemyFire_def loseLife_def autoShoot_def spawnEnemy_def
      new_Enemy_def maybeSpawnEnemy_def checkSurvivor_def checkLevelUp_def Let_def
      split: option.splits)

lemma entriesFromClock_handleInput [simp]:
  "entriesFromClock env (handleInput env' w) = entriesFromClock env w"
  by (simp add: handleInput_eq)

lemma entriesFromClock_fold_pushParticle [simp]:
  "entriesFromClock env (fold (\<lambda>i. pushParticle env' e) xs w) = entriesFromClock env w"
  by (induction xs arbitrary: w) simp_all

lemma entriesFromClock_killEffects [simp]:
  "entriesFromClock env (killEffects env' lvl e w) = entriesFromClock env w"
  by (simp add: killEffects_def Let_def)

lemma entriesFromClock_forEachBullet [simp]:
  "entriesFromClock env (snd (snd (forEachBullet env' lvl k len s))) = entriesFromClock env (snd (snd s))"
  by (rule forEachBullet_preserves) simp_all

lemma entriesFromClock_steps:
  assumes "entriesFromClock env w"
  shows "entriesFromClock env (snd (Date_now env w))"
    and "entriesFromClock env (consumeShield w)"
    and "entriesFromClock env (pickUp env p w)"
proof -
  show "entriesFromClock env (snd (Date_now env w))"
    using assms by (auto simp add: entriesFromClock_def Date_now_def intro: less_SucI)
  show "entriesFromClock env (consumeShield w)"
    using assms by (simp add: entriesFromClock_def consumeShield_def)
  have grown: "entriesFromClock env (w\<lparr>dateNowCalls := Suc (dateNowCalls w),
                  activePowerUps := activate ty (dateNowValues env (dateNowCalls w)) (activePowerUps w)\<rparr>)" for ty
    using assms by (auto simp add: entriesFromClock_def activate_def intro: less_SucI)
  show "entriesFromClock env (pickUp env p w)"
    using assms grown [of "pu_type p"] by (simp add: pickUp_def Date_now_def Let_def)
qed

lemma entriesFromClock_callbacks:
  assumes "entriesFromClock env w"
  shows "entriesFromClock env (snd (bulletCallback env b w))"
    and "entriesFromClock env (snd (enemyBulletCallback env now aps b w))"
    and "entriesFromClock env (snd (enemyCallback env now lvl aps e w))"
    and "entriesFromClock env (snd (powerUpCallback env p w))"
    and "entriesFromClock env (snd (particleCallback pt w))"
  using assms
  by (simp_all add: bulletCallback_def enemyBulletCallback_def enemyBulletResolve_def
      enemyCallback_def enemyResolve_world enemyVsPlayer_def powerUpCallback_def
      powerUpResolve_def particleCallback_def Let_def case_prod_unfold entriesFromClock_steps)

lemma entriesFromClock_passes:
  assumes "entriesFromClock env w"
  shows "entriesFromClock env (updateBullets env w)"
    and "entriesFromClock env (updateEnemyBullets env now aps w)"
    and "entriesFromClock env (updateEnemies env now lvl aps w)"
    and "entriesFromClock env (updatePowerUps env w)"
    and "entriesFromClock env (updateParticles w)"
  using assms
  by (simp_all add: update_passes
      filterWith_invariant [where P = "entriesFromClock env"] entriesFromClock_callbacks)

lemma entriesFromClock_initialWorld: "entriesFromClock env initialWorld"
  by (simp add: entriesFromClock_def initialWorld_def)

lemma entriesFromClock_tick:
  "entriesFromClock env w \<Longrightarrow> entriesFromClock env (tick env w)"
  by (simp add: tick_unfold beforeLevelCheck_def Let_def case_prod_unfold
      entriesFromClock_passes entriesFromClock_steps)

lemma entriesFromClock_run:
  "entriesFromClock env ((tick env ^^ n) initialWorld)"
  by (induction n) (simp_all add: entriesFromClock_initialWorld entriesFromClock_tick)


text \<open>
  C7, as stated, fails: the expiry is made from the wall clock, which can step back. The
  player touches two shield power-ups in one pass; \<open>Date.now()\<close> returns 12000 for the
  first pickup and 5000 for the second. The first pickup makes an entry expiring at
  20000, the second replaces it by one expiring at 13000, which is earlier.
\<close>

theorem pickup_after_clock_step_back:
  "dateNowValues (clockEnv 12000 5000) 1 < dateNowValues (clockEnv 12000 5000) 0 \<and>
   playerTouchesPowerUp (player twoShieldsWorld) (PowerUp_update shieldPowerUp) \<and>
   activePowerUps (snd (powerUpCallback (clockEnv 12000 5000) shieldPowerUp twoShieldsWorld)) =
     [\<lparr>ap_type = SHIELD, ap_endTime = 20000\<rparr>] \<and>
   activePowerUps (snd (powerUpCallback (clockEnv 12000 5000) shieldPowerUp
       (snd (powerUpCallback (clockEnv 12000 5000) shieldPowerUp twoShieldsWorld)))) =
     [\<lparr>ap_type = SHIELD, ap_endTime = 13000\<rparr>] \<and>
   activePowerUps (updatePowerUps (clockEnv 12000 5000) twoShieldsWorld) =
     [\<lparr>ap_type = SHIELD, ap_endTime = 13000\<rparr>]"
  by (simp add: loop_defs twoShieldsWorld_def shieldPowerUp_def initialWorld_def clockEnv_def)

text \<open>
  C7, amended: when the player touches a TRIPLE_SHOT or SHIELD power-up, the ActivePowerUp
  state afterwards contains exactly one entry of that variant, whose expiry is the
  pickup's \<open>Date.now()\<close> plus \<open>POWERUP_DURATION\<close>; the entries of the other variant
  stay; so picking up the same variant again refreshes, never stacks. The new expiry is
  at least the expiry of any entry of that variant it replaced provided the pickup's
  \<open>Date.now()\<close> is not below any value \<open>Date.now()\<close> returned before (the wall clock
  has not stepped back); the entries being made from earlier calls of \<open>Date.now()\<close> is
  an invariant that every tick, and the pickup, keeps.
\<close>

theorem pickup_refreshes:
  assumes "playerTouchesPowerUp (player w) (PowerUp_update p)"
      and "pu_type p = TRIPLE_SHOT \<or> pu_type p = SHIELD"
  shows "let t = dateNowValues env (dateNowCalls w);
             after = activePowerUps (snd (powerUpCallback env p w))
         in length (filter (\<lambda>a. ap_type a = pu_type p) after) = 1 \<and>
            (\<forall>a \<in> set after. ap_type a = pu_type p \<longrightarrow> ap_endTime a = t + POWERUP_DURATION) \<and>
            filter (\<lambda>a. ap_type a \<noteq> pu_type p) after =
              filter (\<lambda>a. ap_type a \<noteq> pu_type p) (activePowerUps w) \<and>
            (entriesFromClock env w \<longrightarrow> entriesFromClock env (snd (powerUpCallback env p w))) \<and>
            (entriesFromClock env w \<and> (\<forall>k < dateNowCalls w. dateNowValues env k \<le> t) \<longrightarrow>
               (\<forall>old \<in> set (activePowerUps w). \<forall>new \<in> set after.
                   ap_type old = pu_type p \<and> ap_type new = pu_type p \<longrightarrow>
                   ap_endTime old \<le> ap_endTime new))"
proof -
  let ?t = "dateNowValues env (dateNowCalls w)"
  let ?after = "activePowerUps (snd (powerUpCallback env p w))"
  have ty: "pu_type (PowerUp_update p) = pu_type p" "pu_type p \<noteq> EXTRA_LIFE"
    using assms(2) by (auto simp add: PowerUp_update_def)
  have after: "?after = activate (pu_type p) ?t (activePowerUps w)"
    using assms(1) ty
    by (simp add: powerUpCallback_def powerUpResolve_def pickUp_activePowerUps)
  note one = activate_one_entry [of "pu_type p" ?t "activePowerUps w", folded after]
  have kept: "entriesFromClock env w \<Longrightarrow> entriesFromClock env (snd (powerUpCallback env p w))"
    by (rule entriesFromClock_callbacks(4))
  have later: "ap_endTime old \<le> ap_endTime new"
    if inv: "entriesFromClock env w" and mono: "\<forall>k < dateNowCalls w. dateNowValues env k \<le> ?t"
      and old: "old \<in> set (activePowerUps w)" and new: "new \<in> set ?after" "ap_type new = pu_type p"
    for old new
  proof -
    obtain k where k: "k < dateNowCalls w" "ap_endTime old = dateNowValues env k + POWERUP_DURATION"
      using inv old by (auto simp add: entriesFromClock_def)
    have "ap_endTime new = ?t + POWERUP_DURATION"
      using one(2) new by blast
    then show ?thesis
      using k mono by simp
  qed
  show ?thesis
    unfolding Let_def
    using one kept later by blast
qed

theorem pickup_refreshes_witness:
  "playerTouchesPowerUp
     (player (snd (powerUpCallback (clockEnv 4000 5000) shieldPowerUp twoShieldsWorld)))
     (PowerUp_update shieldPowerUp) \<and>
   entriesFromClock (clockEnv 4000 5000)
     (snd (powerUpCallback (clockEnv 4000 5000) shieldPowerUp twoShieldsWorld)) \<and>
   dateNowCalls (snd (powerUpCallback (clockEnv 4000 5000) shieldPowerUp twoShieldsWorld)) = 1 \<and>
   dateNowValues (clockEnv 4000 5000) 0 \<le> dateNowValues (clockEnv 4000 5000) 1 \<and>
   activePowerUps (snd (powerUpCallback (clockEnv 4000 5000) shieldPowerUp twoShieldsWorld)) =
     [\<lparr>ap_type = SHIELD, ap_endTime = 12000\<rparr>] \<and>
   activePowerUps (snd (powerUpCallback (clockEnv 4000 5000) shieldPowerUp
       (snd (powerUpCallback (clockEnv 4000 5000) shieldPowerUp twoShieldsWorld)))) =
     [\<lparr>ap_type = SHIELD, ap_endTime = 13000\<rparr>] \<and>
   (12000 :: real) \<le> 13000"
proof -
  let ?E = "clockEnv 4000 5000"
  let ?W = "snd (powerUpCallback ?E shieldPowerUp twoShieldsWorld)"
  have touch0: "playerTouchesPowerUp (player twoShieldsWorld) (PowerUp_update shieldPowerUp)"
    by (simp add: twoShieldsWorld_def shieldPowerUp_def playerTouchesPowerUp_def
        PowerUp_update_def POWERUP_SIZE_def PLAYER_SIZE_def)
  have ty: "pu_type shieldPowerUp = TRIPLE_SHOT \<or> pu_type shieldPowerUp = SHIELD"
    by (simp add: shieldPowerUp_def)
  have first: "activePowerUps ?W = [\<lparr>ap_type = SHIELD, ap_endTime = 12000\<rparr>]"
      "dateNowCalls ?W = 1" "player ?W = player twoShieldsWorld"
    by (simp_all add: loop_defs twoShieldsWorld_def shieldPowerUp_def initialWorld_def clockEnv_def)
  have touch: "playerTouchesPowerUp (player ?W) (PowerUp_update shieldPowerUp)"
    using touch0 by (simp add: first)
  have inv: "entriesFromClock ?E ?W"
    using pickup_refreshes [OF touch0 ty, of ?E]
    by (simp add: Let_def entriesFromClock_initialWorld twoShieldsWorld_def)
  have mono: "\<forall>k < dateNowCalls ?W. dateNowValues ?E k \<le> dateNowValues ?E (dateNowCalls ?W)"
    by (simp add: first clockEnv_def)
  have second: "activePowerUps (snd (powerUpCallback ?E shieldPowerUp ?W)) =
                [\<lparr>ap_type = SHIELD, ap_endTime = 13000\<rparr>]"
    by (simp add: loop_defs twoShieldsWorld_def shieldPowerUp_def initialWorld_def clockEnv_def)
  show ?thesis
    using pickup_refreshes [OF touch ty, of ?E] touch inv mono
    by (simp add: Let_def first second)
qed

end
